theory Spec2Isabelle
  imports Complex_Main "HOL-Library.Word"
begin

section \<open>JavaScript strings\<close>

text \<open>
  A JavaScript string is a sequence of 16-bit UTF-16 code units; \<open>length\<close>, \<open>charAt\<close>,
  \<open>slice\<close> and the regular expressions of \<open>server.js\<close> (none has the \<open>u\<close> flag) all
  count code units. String literals of the source that are plain ASCII are written
  \<open>js ''...''\<close>; the others are written as their code units.

  The source file \<open>server.js\<close> stores every non-ASCII literal in a mis-encoded form (the
  UTF-8 bytes of the intended character read as Mac Roman and saved again): where the
  comment says en-dash the file holds the three characters U+201A U+00C4 U+00EC, and so
  on. The definitions below hold the code units that are in the file.
\<close>

type_synonym jchar = "16 word"
type_synonym jstring = "jchar list"

definition js :: "string \<Rightarrow> jstring" where
  "js s = map (\<lambda>c. of_nat (of_char c)) s"

text \<open>White space as \<open>\s\<close> and \<open>String.prototype.trim\<close> see it (WhiteSpace and LineTerminator).\<close>

definition isSpace :: "jchar \<Rightarrow> bool" where
  "isSpace c \<longleftrightarrow>
     c = 0x09 \<or> c = 0x0A \<or> c = 0x0B \<or> c = 0x0C \<or> c = 0x0D \<or> c = 0x20 \<or> c = 0xA0 \<or>
     c = 0x1680 \<or> (0x2000 \<le> c \<and> c \<le> 0x200A) \<or> c = 0x2028 \<or> c = 0x2029 \<or>
     c = 0x202F \<or> c = 0x205F \<or> c = 0x3000 \<or> c = 0xFEFF"

definition trim :: "jstring \<Rightarrow> jstring" where
  "trim s = rev (dropWhile isSpace (rev (dropWhile isSpace s)))"

text \<open>
  \<open>toLowerCase\<close> and \<open>toUpperCase\<close>, code unit by code unit. The mapping is the Unicode one
  on U+0000..U+017F (Basic Latin, Latin-1 Supplement, Latin Extended-A) and on
  U+1E00..U+1EFF (Latin Extended Additional), the blocks of the transliterated names this
  program handles; it includes the mappings to two code units and to another block.
  Every other code unit is left unchanged, which is what JavaScript does for digits,
  punctuation, symbols, Indic scripts and lone surrogates, and differs from JavaScript
  on the cased letters of other scripts.
\<close>

definition pairedBlock :: "jchar \<Rightarrow> bool" where
  "pairedBlock c \<longleftrightarrow>
     (0x100 \<le> c \<and> c \<le> 0x137) \<or> (0x14A \<le> c \<and> c \<le> 0x177) \<or>
     (0x1E00 \<le> c \<and> c \<le> 0x1E95) \<or> (0x1EA0 \<le> c \<and> c \<le> 0x1EFF)"

definition pairedBlockOdd :: "jchar \<Rightarrow> bool" where
  "pairedBlockOdd c \<longleftrightarrow> (0x139 \<le> c \<and> c \<le> 0x148) \<or> (0x179 \<le> c \<and> c \<le> 0x17E)"

definition lowerUnit :: "jchar \<Rightarrow> jstring" where
  "lowerUnit c =
     (if 0x41 \<le> c \<and> c \<le> 0x5A then [c + 0x20]
      else if c < 0xC0 then [c]
      else if c \<le> 0xDE then (if c = 0xD7 then [c] else [c + 0x20])
      else if c < 0x100 then [c]
      else if c = 0x130 then [0x69, 0x307]
      else if c = 0x178 then [0xFF]
      else if pairedBlock c \<and> \<not> bit c 0 then [c + 1]
      else if pairedBlockOdd c \<and> bit c 0 then [c + 1]
      else if c = 0x1E9E then [0xDF]
      else [c])"

definition upperUnit :: "jchar \<Rightarrow> jstring" where
  "upperUnit c =
     (if 0x61 \<le> c \<and> c \<le> 0x7A then [c - 0x20]
      else if c < 0xB5 then [c]
      else if c = 0xB5 then [0x39C]
      else if c = 0xDF then [0x53, 0x53]
      else if c = 0xFF then [0x178]
      else if 0xE0 \<le> c \<and> c \<le> 0xFE then (if c = 0xF7 then [c] else [c - 0x20])
      else if c < 0x100 then [c]
      else if c = 0x131 then [0x49]
      else if c = 0x149 then [0x2BC, 0x4E]
      else if c = 0x17F then [0x53]
      else if pairedBlock c \<and> bit c 0 then [c - 1]
      else if pairedBlockOdd c \<and> \<not> bit c 0 then [c - 1]
      else if c = 0x1E96 then [0x48, 0x331]
      else if c = 0x1E97 then [0x54, 0x308]
      else if c = 0x1E98 then [0x57, 0x30A]
      else if c = 0x1E99 then [0x59, 0x30A]
      else if c = 0x1E9A then [0x41, 0x2BE]
      else if c = 0x1E9B then [0x1E60]
      else [c])"

definition toLowerCase :: "jstring \<Rightarrow> jstring" where
  "toLowerCase s = concat (map lowerUnit s)"

definition toUpperCase :: "jstring \<Rightarrow> jstring" where
  "toUpperCase s = concat (map upperUnit s)"

text \<open>\<open>s.startsWith(p)\<close> and \<open>s.includes(p)\<close>.\<close>

definition startsWith :: "jstring \<Rightarrow> jstring \<Rightarrow> bool" where
  "startsWith s p \<longleftrightarrow> take (length p) s = p"

fun includesStr :: "jstring \<Rightarrow> jstring \<Rightarrow> bool" where
  "includesStr [] p = (p = [])"
| "includesStr (c # cs) p = (if startsWith (c # cs) p then True else includesStr cs p)"

text \<open>\<open>s.split(sep)\<close> for a separator of one code unit, and \<open>parts.join(sep)\<close>.\<close>

fun splitChar :: "jchar \<Rightarrow> jstring \<Rightarrow> jstring list" where
  "splitChar sep [] = [[]]"
| "splitChar sep (c # cs) =
     (if c = sep then [] # splitChar sep cs
      else (case splitChar sep cs of
              [] \<Rightarrow> [[c]]
            | w # ws \<Rightarrow> (c # w) # ws))"

fun joinWith :: "jstring \<Rightarrow> jstring list \<Rightarrow> jstring" where
  "joinWith sep [] = []"
| "joinWith sep [w] = w"
| "joinWith sep (w # v # ws) = w @ sep @ joinWith sep (v # ws)"

text \<open>
  A letter of a pattern under the \<open>i\<close> flag. Every letter in the patterns of \<open>server.js\<close>
  is ASCII, and without the \<open>u\<close> flag a code unit above U+007F is never folded onto an
  ASCII one, so the pattern letter matches exactly its two ASCII cases.
\<close>

definition ciChar :: "jchar \<Rightarrow> jchar \<Rightarrow> bool" where
  "ciChar p c \<longleftrightarrow>
     c = p \<or> (0x61 \<le> p \<and> p \<le> 0x7A \<and> c = p - 0x20) \<or> (0x41 \<le> p \<and> p \<le> 0x5A \<and> c = p + 0x20)"

text \<open>\<open>ciStrip p s\<close>: the literal \<open>p\<close> matched under \<open>i\<close> at the start of \<open>s\<close>; what follows it.\<close>

fun ciStrip :: "jstring \<Rightarrow> jstring \<Rightarrow> jstring option" where
  "ciStrip [] s = Some s"
| "ciStrip (p # ps) [] = None"
| "ciStrip (p # ps) (c # cs) = (if ciChar p c then ciStrip ps cs else None)"

text \<open>\<open>/p/i.test(s)\<close> for a literal \<open>p\<close>.\<close>

fun ciIncludes :: "jstring \<Rightarrow> jstring \<Rightarrow> bool" where
  "ciIncludes [] p = (p = [])"
| "ciIncludes (c # cs) p = (if ciStrip p (c # cs) \<noteq> None then True else ciIncludes cs p)"

section \<open>Text normalizer\<close>

text \<open>
  What \<open>normalizeLanguageName\<close> and \<open>normalizeTraditionName\<close> can return: \<open>null\<close>, a
  string, or a value found on \<open>Object.prototype\<close>. The lookup \<open>normalizations[lowerName]\<close>
  reads an object literal, so a key that is not in the literal is looked up on
  \<open>Object.prototype\<close>. The key is a lower-cased string, and the property names of
  \<open>Object.prototype\<close> without an upper-case letter are \<open>constructor\<close> (the function
  \<open>Object\<close>, whose \<open>length\<close> is 1) and \<open>__proto__\<close> (the object \<open>Object.prototype\<close>, which
  has no \<open>length\<close>); both are truthy.
\<close>

datatype builtin = ObjectConstructor | ObjectPrototype

datatype normalized = NNull | NStr jstring | NBuiltin builtin

datatype error = TypeError | ConversionFailure

definition truthyN :: "normalized \<Rightarrow> bool" where
  "truthyN v = (case v of NNull \<Rightarrow> False | NStr s \<Rightarrow> s \<noteq> [] | NBuiltin b \<Rightarrow> True)"

text \<open>\<open>v.length\<close>: a number, \<open>undefined\<close> (\<open>None\<close>), or a TypeError on \<open>null\<close>.\<close>

definition lengthN :: "normalized \<Rightarrow> error + nat option" where
  "lengthN v =
     (case v of
        NNull \<Rightarrow> Inl TypeError
      | NStr s \<Rightarrow> Inr (Some (length s))
      | NBuiltin ObjectConstructor \<Rightarrow> Inr (Some 1)
      | NBuiltin ObjectPrototype \<Rightarrow> Inr None)"

definition lookupProp :: "(jstring \<times> jstring) list \<Rightarrow> jstring \<Rightarrow> normalized option" where
  "lookupProp table k =
     (case map_of table k of
        Some v \<Rightarrow> Some (NStr v)
      | None \<Rightarrow>
          if k = js ''constructor'' then Some (NBuiltin ObjectConstructor)
          else if k = js ''__proto__'' then Some (NBuiltin ObjectPrototype)
          else None)"

text \<open>\<open>s.replace(/[()]/g, '')\<close>\<close>

definition removeParenChars :: "jstring \<Rightarrow> jstring" where
  "removeParenChars s = filter (\<lambda>c. c \<noteq> 0x28 \<and> c \<noteq> 0x29) s"

text \<open>\<open>s.replace(/\s+/g, ' ')\<close>\<close>

function collapseSpaces :: "jstring \<Rightarrow> jstring" where
  "collapseSpaces [] = []"
| "collapseSpaces (c # cs) =
     (if isSpace c then 0x20 # collapseSpaces (dropWhile isSpace cs)
      else c # collapseSpaces cs)"
  by pat_completeness auto
termination
  by (relation "measure length") (auto simp: length_dropWhile_le less_Suc_eq_le)

definition languageNormalizations :: "(jstring \<times> jstring) list" where
  "languageNormalizations =
    [(js ''brajbhasa'', js ''Braj Bhasha''), (js ''brajbhasha'', js ''Braj Bhasha''),
     (js ''braj bhasa'', js ''Braj Bhasha''), (js ''braj'', js ''Braj Bhasha''),
     (js ''brij bhasha'', js ''Braj Bhasha''), (js ''brijbhasha'', js ''Braj Bhasha''),
     (js ''hindii'', js ''Hindi''), (js ''hindustani'', js ''Hindi''),
     (js ''sanskirt'', js ''Sanskrit''), (js ''sankrit'', js ''Sanskrit''),
     (js ''sanskrit-derived'', js ''Sanskrit''),
     (js ''bangla'', js ''Bengali''), (js ''panjabi'', js ''Punjabi''),
     (js ''tamizh'', js ''Tamil''), (js ''telegu'', js ''Telugu''),
     (js ''kannad'', js ''Kannada''), (js ''gujrati'', js ''Gujarati''),
     (js ''avadhi'', js ''Awadhi''), (js ''maithali'', js ''Maithili''),
     (js ''farsi'', js ''Persian''), (js ''odiya'', js ''Odia''), (js ''oriya'', js ''Odia''),
     (js ''marwari'', js ''Marwari''),
     (js ''sant bhasha'', js ''Sant Bhasha''), (js ''kashmiri'', js ''Kashmiri'')]"

text \<open>\<open>word.charAt(0).toUpperCase() + word.slice(1)\<close>\<close>

definition capitalize :: "jstring \<Rightarrow> jstring" where
  "capitalize word = toUpperCase (take 1 word) @ drop 1 word"

definition normalizeLanguageName :: "jstring \<Rightarrow> normalized" where
  "normalizeLanguageName name =
     (if name = [] then NStr name
      else
        let cleaned = collapseSpaces (removeParenChars (trim name)) in
        if length cleaned < 2 then NNull
        else
          let lowerName = toLowerCase cleaned in
          case lookupProp languageNormalizations lowerName of
            Some v \<Rightarrow> v
          | None \<Rightarrow> NStr (joinWith (js '' '') (map capitalize (splitChar 0x20 cleaned))))"

text \<open>
  The keys of the tradition table, as \<open>server.js\<close> holds them. Those with a comment are
  stored mis-encoded; the comment gives the spelling the mis-encoding came from.
\<close>

definition traditionNormalizations :: "(jstring \<times> jstring) list" where
  "traditionNormalizations =
    [(js ''vaisnava'', js ''Vaishnava''),
     \<comment> \<open>vaisnava with s-underdot and n-underdot\<close>
     (js ''vai'' @ [0xB7, 0x3C0, 0xA3, 0xB7, 0x3C0, 0xE1] @ js ''ava'', js ''Vaishnava''),
     (js ''vaishnavism'', js ''Vaishnava''),
     (js ''saiva'', js ''Shaiva''),
     \<comment> \<open>saiva with s-acute\<close>
     ([0x2248, 0xF5] @ js ''aiva'', js ''Shaiva''),
     (js ''shaivism'', js ''Shaiva''),
     \<comment> \<open>siddhanta with a-macron\<close>
     (js ''siddh'' @ [0x192, 0xC5] @ js ''nta'', js ''Siddhanta''),
     \<comment> \<open>lingayat with n-overdot and a-macron\<close>
     (js ''li'' @ [0xB7, 0x3C0, 0xD6] @ js ''g'' @ [0x192, 0xC5] @ js ''yat'', js ''Lingayat''),
     \<comment> \<open>lingayat with a-macron\<close>
     (js ''ling'' @ [0x192, 0xC5] @ js ''yat'', js ''Lingayat''),
     \<comment> \<open>varkari with a-macron\<close>
     (js ''v'' @ [0x192, 0xC5] @ js ''rkari'', js ''Varkari''),
     \<comment> \<open>gaudiya with d-underdot and i-macron\<close>
     (js ''gau'' @ [0xB7, 0x220F, 0xE7, 0x192, 0xB4] @ js ''ya'', js ''Gaudiya''),
     \<comment> \<open>gaudiya with i-macron\<close>
     (js ''gaud'' @ [0x192, 0xB4] @ js ''ya'', js ''Gaudiya''),
     \<comment> \<open>virasaiva with i-macron and s-acute\<close>
     (js ''v'' @ [0x192, 0xB4] @ js ''ra'' @ [0x2248, 0xF5] @ js ''aiva'', js ''Virashaiva''),
     (js ''virasaiva'', js ''Virashaiva''),
     \<comment> \<open>alvars with a-macron, l-underline, a-macron\<close>
     ([0x192, 0xC5, 0xB7, 0x220F, 0xAA] @ js ''v'' @ [0x192, 0xC5] @ js ''rs'', js ''Alvars''),
     (js ''alwars'', js ''Alvars''),
     \<comment> \<open>nayanars with a-macron twice\<close>
     (js ''n'' @ [0x192, 0xC5] @ js ''yan'' @ [0x192, 0xC5] @ js ''rs'', js ''Nayanars''),
     (js ''nayanmars'', js ''Nayanars'')]"

definition normalizeTraditionName :: "jstring \<Rightarrow> normalized" where
  "normalizeTraditionName name =
     (if name = [] then NStr name
      else
        let cleaned = collapseSpaces (trim name) in
        if length cleaned < 2 then NNull
        else
          let lowerName = toLowerCase cleaned in
          case lookupProp traditionNormalizations lowerName of
            Some v \<Rightarrow> v
          | None \<Rightarrow> NStr cleaned)"

section \<open>JavaScript values\<close>

text \<open>
  The values a request parameter or a stored document can hold. An object is the list of
  its own enumerable properties in the order \<open>Object.entries\<close> lists them. The document
  store's identifier object stands in a document as the hexadecimal string its \<open>toString\<close>
  gives. Numbers are the finite doubles, as reals.
\<close>

datatype jsvalue =
    JUndefined
  | JNull
  | JBool bool
  | JNum real
  | JStr jstring
  | JArr "jsvalue list"
  | JObj "(jstring \<times> jsvalue) list"

section \<open>Regular expressions\<close>

text \<open>
  Each regular expression of the source is a matcher: given the text from some position
  on, it returns the matched text and what follows the match, or \<open>None\<close> when the
  expression does not match at that position. The functions below are the string
  methods that take such an expression; all of them try the positions from left to
  right and go on after a match, and an empty match never splits or removes anything.
\<close>

type_synonym matcher = "jstring \<Rightarrow> (jstring \<times> jstring) option"

text \<open>\<open>s.replace(re, '')\<close> for a global \<open>re\<close>.\<close>

function regexRemoveAll :: "matcher \<Rightarrow> jstring \<Rightarrow> jstring" where
  "regexRemoveAll m [] = []"
| "regexRemoveAll m (c # cs) =
     (case m (c # cs) of
        None \<Rightarrow> c # regexRemoveAll m cs
      | Some (matched, rest) \<Rightarrow>
          if length rest < length (c # cs) then regexRemoveAll m rest
          else c # regexRemoveAll m cs)"
  by pat_completeness auto
termination
  by (relation "measure (\<lambda>(m, s). length s)") auto

text \<open>\<open>s.replace(re, '')\<close> for a \<open>re\<close> that is not global: the first match only.\<close>

fun regexRemoveFirst :: "matcher \<Rightarrow> jstring \<Rightarrow> jstring" where
  "regexRemoveFirst m [] = []"
| "regexRemoveFirst m (c # cs) =
     (case m (c # cs) of
        None \<Rightarrow> c # regexRemoveFirst m cs
      | Some (matched, rest) \<Rightarrow> rest)"

text \<open>\<open>s.match(re)\<close> for a global \<open>re\<close>: the matched texts; \<open>null\<close> is the empty list.\<close>

function regexMatchAll :: "matcher \<Rightarrow> jstring \<Rightarrow> jstring list" where
  "regexMatchAll m [] = []"
| "regexMatchAll m (c # cs) =
     (case m (c # cs) of
        None \<Rightarrow> regexMatchAll m cs
      | Some (matched, rest) \<Rightarrow>
          if length rest < length (c # cs) then matched # regexMatchAll m rest
          else regexMatchAll m cs)"
  by pat_completeness auto
termination
  by (relation "measure (\<lambda>(m, s). length s)") auto

text \<open>\<open>s.split(re)\<close>\<close>

function regexSplit :: "matcher \<Rightarrow> jstring \<Rightarrow> jstring list" where
  "regexSplit m [] = [[]]"
| "regexSplit m (c # cs) =
     (case (case m (c # cs) of
              None \<Rightarrow> None
            | Some (matched, rest) \<Rightarrow> if length rest < length (c # cs) then Some rest else None) of
        Some rest \<Rightarrow> [] # regexSplit m rest
      | None \<Rightarrow>
          (case regexSplit m cs of
             [] \<Rightarrow> [[c]]
           | w # ws \<Rightarrow> (c # w) # ws))"
  by pat_completeness auto
termination
  by (relation "measure (\<lambda>(m, s). length s)") (auto split: option.splits if_splits)

text \<open>The text up to the first \<open>)\<close> and the text after that \<open>)\<close>; \<open>None\<close> without a \<open>)\<close>.\<close>

definition closeParen :: "jstring \<Rightarrow> (jstring \<times> jstring) option" where
  "closeParen s =
     (case dropWhile (\<lambda>x. x \<noteq> 0x29) s of
        [] \<Rightarrow> None
      | p # rest \<Rightarrow> Some (takeWhile (\<lambda>x. x \<noteq> 0x29) s, rest))"

text \<open>\<open>/\([^)]{50,}\)/\<close>\<close>

definition longParenthetical :: matcher where
  "longParenthetical s =
     (case s of
        [] \<Rightarrow> None
      | c # cs \<Rightarrow>
          if c = 0x28 then
            (case closeParen cs of
               None \<Rightarrow> None
             | Some (run, rest) \<Rightarrow>
                 if 50 \<le> length run then Some (c # run @ [0x29], rest) else None)
          else None)"

text \<open>
  \<open>/\(([^)]+)\s*dialects?\)/i\<close>. Between the \<open>(\<close> and the first \<open>)\<close> after it the
  expression needs at least one code unit followed by \<open>dialect\<close> or \<open>dialects\<close>; the
  optional white space before the word is itself text that \<open>[^)]+\<close> accepts.
\<close>

definition endsWithDialect :: "jstring \<Rightarrow> bool" where
  "endsWithDialect run \<longleftrightarrow>
     (8 \<le> length run \<and> ciStrip (js ''dialect'') (drop (length run - 7) run) = Some []) \<or>
     (9 \<le> length run \<and> ciStrip (js ''dialects'') (drop (length run - 8) run) = Some [])"

definition dialectGroup :: matcher where
  "dialectGroup s =
     (case s of
        [] \<Rightarrow> None
      | c # cs \<Rightarrow>
          if c = 0x28 then
            (case closeParen cs of
               None \<Rightarrow> None
             | Some (run, rest) \<Rightarrow>
                 if endsWithDialect run then Some (c # run @ [0x29], rest) else None)
          else None)"

text \<open>\<open>/\(|\)|dialects?/i\<close>\<close>

definition parenOrDialect :: matcher where
  "parenOrDialect s =
     (case s of
        [] \<Rightarrow> None
      | c # cs \<Rightarrow>
          if c = 0x28 \<or> c = 0x29 then Some ([c], cs)
          else
            (case ciStrip (js ''dialect'') s of
               None \<Rightarrow> None
             | Some rest \<Rightarrow>
                 (case ciStrip (js ''s'') rest of
                    Some rest' \<Rightarrow> Some (take 8 s, rest')
                  | None \<Rightarrow> Some (take 7 s, rest))))"

text \<open>\<open>/[,\/]/\<close>\<close>

definition commaOrSlash :: matcher where
  "commaOrSlash s =
     (case s of
        [] \<Rightarrow> None
      | c # cs \<Rightarrow> if c = 0x2C \<or> c = 0x2F then Some ([c], cs) else None)"

text \<open>\<open>/\s*\([^)]*\)/\<close>\<close>

definition parenthetical :: matcher where
  "parenthetical s =
     (case dropWhile isSpace s of
        [] \<Rightarrow> None
      | p # ps \<Rightarrow>
          if p = 0x28 then
            (case closeParen ps of
               None \<Rightarrow> None
             | Some (run, rest) \<Rightarrow> Some (take (length s - length rest) s, rest))
          else None)"

text \<open>\<open>/[,\/;|&]|\s+and\s+/i\<close>\<close>

definition separator :: matcher where
  "separator s =
     (case s of
        [] \<Rightarrow> None
      | c # cs \<Rightarrow>
          if c = 0x2C \<or> c = 0x2F \<or> c = 0x3B \<or> c = 0x7C \<or> c = 0x26 then Some ([c], cs)
          else if isSpace c then
            (case ciStrip (js ''and'') (dropWhile isSpace cs) of
               None \<Rightarrow> None
             | Some [] \<Rightarrow> None
             | Some (d # ds) \<Rightarrow>
                 if isSpace d then
                   (let rest = dropWhile isSpace ds in Some (take (length s - length rest) s, rest))
                 else None)
          else None)"

section \<open>Compound value parser: languages\<close>

definition skipPhrases :: "jstring list" where
  "skipPhrases =
     [js ''derived terms'', js ''influences'', js ''other local'', js ''sometimes'',
      js ''spiritual vernacular'', js ''common to'', js ''words'', js ''from eastern'',
      js ''primary'', js ''secondary'']"

definition qualifierWords :: "jstring list" where
  "qualifierWords = [js ''primary'', js ''secondary'', js ''sometimes'', js ''mostly'', js ''mainly'']"

text \<open>\<open>results.add(x)\<close> on a \<open>Set\<close>, kept as the list of its elements in insertion order.\<close>

definition setAdd :: "'a \<Rightarrow> 'a list \<Rightarrow> 'a list" where
  "setAdd x results = (if x \<in> set results then results else results @ [x])"

text \<open>\<open>xs.forEach(f)\<close> for a body that updates a state and may raise.\<close>

fun forEachE :: "('a \<Rightarrow> 's \<Rightarrow> error + 's) \<Rightarrow> 'a list \<Rightarrow> 's \<Rightarrow> error + 's" where
  "forEachE f [] st = Inr st"
| "forEachE f (x # xs) st =
     (case f x st of
        Inl e \<Rightarrow> Inl e
      | Inr st' \<Rightarrow> forEachE f xs st')"

text \<open>The body of \<open>dialectMatches.forEach\<close>: the parts of one matched group.\<close>

definition dialectParts :: "jstring \<Rightarrow> jstring list" where
  "dialectParts matched =
     (let inner = trim (regexRemoveAll parenOrDialect matched);
          parts = regexSplit commaOrSlash inner
      in filter (\<lambda>cleaned. cleaned \<noteq> [] \<and> 1 < length cleaned) (map trim parts))"

text \<open>The body of the final \<open>forEach\<close> of \<open>parseLanguageValue\<close>.\<close>

definition languagePart :: "jstring \<Rightarrow> normalized list \<Rightarrow> error + normalized list" where
  "languagePart part results =
     (let cleaned = trim part in
      if cleaned = [] \<or> length cleaned < 2 then Inr results
      else
        let lowerCleaned = toLowerCase cleaned in
        if list_ex (\<lambda>phrase. includesStr lowerCleaned phrase) skipPhrases then Inr results
        else if lowerCleaned \<in> set qualifierWords then Inr results
        else
          let cleaned' = normalizeLanguageName cleaned in
          if truthyN cleaned' then
            (case lengthN cleaned' of
               Inl e \<Rightarrow> Inl e
             | Inr len \<Rightarrow>
                 if (case len of None \<Rightarrow> False | Some n \<Rightarrow> 1 < n)
                 then Inr (setAdd cleaned' results)
                 else Inr results)
          else Inr results)"

definition parseLanguageValue :: "jsvalue \<Rightarrow> error + normalized list" where
  "parseLanguageValue v =
     (case v of
        JStr val \<Rightarrow>
          if val = [] then Inr []
          else
            let workingValue = regexRemoveAll longParenthetical val;
                dialectMatches = regexMatchAll dialectGroup workingValue;
                extractedDialects = concat (map dialectParts dialectMatches);
                workingValue = (if dialectMatches \<noteq> [] then regexRemoveAll dialectGroup workingValue
                                else workingValue);
                workingValue = regexRemoveAll parenthetical workingValue;
                parts = regexSplit separator workingValue
            in forEachE languagePart (parts @ extractedDialects) []
      | _ \<Rightarrow> Inr [])"

section \<open>Compound value parser: traditions\<close>

text \<open>
  \<open>/\s*[...]\s*|\s+-\s+/\<close>, where the class is written in \<open>server.js\<close> with the six
  characters U+201A U+00C4 U+00EC U+201A U+00C4 U+00EE (the mis-encoded en-dash and
  em-dash), so it holds the four code units U+201A, U+00C4, U+00EC and U+00EE.
\<close>

definition dashSeparator :: matcher where
  "dashSeparator s =
     (case dropWhile isSpace s of
        [] \<Rightarrow> None
      | d # r \<Rightarrow>
          if d = 0x201A \<or> d = 0xC4 \<or> d = 0xEC \<or> d = 0xEE
             \<or> (d = 0x2D \<and> takeWhile isSpace s \<noteq> [] \<and> takeWhile isSpace r \<noteq> [])
          then (let rest = dropWhile isSpace r in Some (take (length s - length rest) s, rest))
          else None)"

text \<open>\<open>/\s*\/\s*/\<close>\<close>

definition slashSeparator :: matcher where
  "slashSeparator s =
     (case dropWhile isSpace s of
        [] \<Rightarrow> None
      | d # r \<Rightarrow>
          if d = 0x2F
          then (let rest = dropWhile isSpace r in Some (take (length s - length rest) s, rest))
          else None)"

text \<open>\<open>/\s+/\<close>\<close>

definition whitespaceRun :: matcher where
  "whitespaceRun s =
     (if takeWhile isSpace s = [] then None
      else Some (takeWhile isSpace s, dropWhile isSpace s))"

text \<open>
  \<open>subPart.match(/^([^(]+)\s*\(([^)]+)\)/)\<close>: the two groups. The first group takes
  everything before the first \<open>(\<close>, the second everything up to the first \<open>)\<close> after
  it; both must be non-empty.
\<close>

definition parenMatch :: "jstring \<Rightarrow> (jstring \<times> jstring) option" where
  "parenMatch s =
     (let main = takeWhile (\<lambda>c. c \<noteq> 0x28) s in
      if main = [] then None
      else
        (case dropWhile (\<lambda>c. c \<noteq> 0x28) s of
           [] \<Rightarrow> None
         | p # ps \<Rightarrow>
             (case closeParen ps of
                None \<Rightarrow> None
              | Some (inner, rest) \<Rightarrow> if inner = [] then None else Some (main, inner))))"

text \<open>\<open>/devotion|rooted|lineage|philosophical|synthesis|movement|tradition|school|common|spiritual/i\<close>\<close>

definition descriptionWords :: "jstring list" where
  "descriptionWords =
     [js ''devotion'', js ''rooted'', js ''lineage'', js ''philosophical'', js ''synthesis'',
      js ''movement'', js ''tradition'', js ''school'', js ''common'', js ''spiritual'']"

text \<open>\<open>/canon|Nayanars/i\<close>\<close>

definition excludedAlternates :: "jstring list" where
  "excludedAlternates = [js ''canon'', js ''Nayanars'']"

text \<open>\<open>/\s+(tradition|movement|devotion|canon)$/i\<close>\<close>

definition suffixWord :: matcher where
  "suffixWord s =
     (if takeWhile isSpace s \<noteq> []
         \<and> list_ex (\<lambda>w. ciStrip w (dropWhile isSpace s) = Some [])
              [js ''tradition'', js ''movement'', js ''devotion'', js ''canon'']
      then Some (s, [])
      else None)"

text \<open>The body of \<open>altParts.forEach\<close>.\<close>

definition traditionAlternate :: "jstring \<Rightarrow> normalized list \<Rightarrow> normalized list" where
  "traditionAlternate alt results =
     (let cleanAlt = trim alt in
      if cleanAlt \<noteq> [] \<and> 3 < length cleanAlt
         \<and> \<not> list_ex (\<lambda>w. ciIncludes cleanAlt w) excludedAlternates
      then setAdd (normalizeTraditionName cleanAlt) results
      else results)"

text \<open>The body of \<open>slashParts.forEach\<close>.\<close>

definition traditionSubPart :: "jstring \<Rightarrow> normalized list \<Rightarrow> normalized list" where
  "traditionSubPart subPart results =
     (case parenMatch subPart of
        Some (group1, group2) \<Rightarrow>
          let mainPart = trim group1;
              parenContent = trim group2;
              results = (if mainPart \<noteq> [] \<and> 2 < length mainPart
                         then setAdd (normalizeTraditionName mainPart) results
                         else results);
              wordCount = length (regexSplit whitespaceRun parenContent);
              isDescription =
                (5 < wordCount \<or> list_ex (\<lambda>w. ciIncludes parenContent w) descriptionWords)
          in if \<not> isDescription \<and> wordCount \<le> 4
             then fold traditionAlternate (regexSplit slashSeparator parenContent) results
             else results
      | None \<Rightarrow>
          let cleaned = trim (regexRemoveAll parenthetical subPart);
              cleaned = regexRemoveFirst suffixWord cleaned
          in if cleaned \<noteq> [] \<and> 2 < length cleaned
             then setAdd (normalizeTraditionName cleaned) results
             else results)"

definition parseTraditionValue :: "jsvalue \<Rightarrow> normalized list" where
  "parseTraditionValue v =
     (case v of
        JStr val \<Rightarrow>
          if val = [] then []
          else
            let dashParts = regexSplit dashSeparator val
            in fold (\<lambda>part. fold traditionSubPart (regexSplit slashSeparator part)) dashParts []
      | _ \<Rightarrow> [])"

section \<open>Record-to-marker projector\<close>

text \<open>
  Two things \<open>convertToMapMarkers\<close> uses are computed on floating-point numbers and are
  taken from the host: the text of a number in a template literal, and the random part of
  a marker id, \<open>Math.random().toString(36).slice(2, 9)\<close>, given here for the n-th call
  of one run (a draw of 0.5 gives \<open>i\<close>, a draw of 0.25 gives \<open>9\<close>).
\<close>

record host =
  numberToString :: "real \<Rightarrow> jstring"
  randomSuffix :: "nat \<Rightarrow> jstring"

definition nullish :: "jsvalue \<Rightarrow> bool" where
  "nullish v \<longleftrightarrow> v = JUndefined \<or> v = JNull"

definition truthy :: "jsvalue \<Rightarrow> bool" where
  "truthy v =
     (case v of
        JUndefined \<Rightarrow> False
      | JNull \<Rightarrow> False
      | JBool b \<Rightarrow> b
      | JNum r \<Rightarrow> r \<noteq> 0
      | JStr s \<Rightarrow> s \<noteq> []
      | JArr xs \<Rightarrow> True
      | JObj kvs \<Rightarrow> True)"

text \<open>\<open>typeof v === 'object'\<close>\<close>

definition typeofObject :: "jsvalue \<Rightarrow> bool" where
  "typeofObject v = (case v of JNull \<Rightarrow> True | JArr xs \<Rightarrow> True | JObj kvs \<Rightarrow> True | _ \<Rightarrow> False)"

text \<open>
  \<open>v.k\<close> on a value that is neither \<open>null\<close> nor \<open>undefined\<close>, for the property names this
  program reads (none of them is an array index or a property of a prototype object).
\<close>

definition propOf :: "jsvalue \<Rightarrow> jstring \<Rightarrow> jsvalue" where
  "propOf v k =
     (case v of
        JObj kvs \<Rightarrow> (case map_of kvs k of Some x \<Rightarrow> x | None \<Rightarrow> JUndefined)
      | JArr xs \<Rightarrow> if k = js ''length'' then JNum (real (length xs)) else JUndefined
      | JStr s \<Rightarrow> if k = js ''length'' then JNum (real (length s)) else JUndefined
      | _ \<Rightarrow> JUndefined)"

text \<open>\<open>v.k\<close>, which raises on \<open>null\<close> and \<open>undefined\<close>, and \<open>v?.k\<close>, which does not.\<close>

definition getProp :: "jsvalue \<Rightarrow> jstring \<Rightarrow> error + jsvalue" where
  "getProp v k = (if nullish v then Inl TypeError else Inr (propOf v k))"

definition optProp :: "jsvalue \<Rightarrow> jstring \<Rightarrow> jsvalue" where
  "optProp v k = (if nullish v then JUndefined else propOf v k)"

text \<open>The decimal text of an array index.\<close>

fun natToString :: "nat \<Rightarrow> jstring" where
  "natToString n =
     (if n < 10 then [0x30 + of_nat n]
      else natToString (n div 10) @ [0x30 + of_nat (n mod 10)])"

declare natToString.simps [simp del]

text \<open>\<open>Object.entries(v)\<close>\<close>

definition objectEntries :: "jsvalue \<Rightarrow> error + (jstring \<times> jsvalue) list" where
  "objectEntries v =
     (case v of
        JUndefined \<Rightarrow> Inl TypeError
      | JNull \<Rightarrow> Inl TypeError
      | JObj kvs \<Rightarrow> Inr kvs
      | JArr xs \<Rightarrow> Inr (zip (map natToString [0..<length xs]) xs)
      | JStr s \<Rightarrow> Inr (zip (map natToString [0..<length s]) (map (\<lambda>c. JStr [c]) s))
      | _ \<Rightarrow> Inr [])"

text \<open>The texts of the elements of a list, or the first error among them.\<close>

fun firstError :: "(error + 'a) list \<Rightarrow> error + 'a list" where
  "firstError [] = Inr []"
| "firstError (x # xs) =
     (case x of
        Inl e \<Rightarrow> Inl e
      | Inr a \<Rightarrow> (case firstError xs of Inl e \<Rightarrow> Inl e | Inr as \<Rightarrow> Inr (a # as)))"

text \<open>
  The text a template literal puts for a value (\<open>ToString\<close>). For an object the
  conversion calls its \<open>toString\<close>: an object without an own \<open>toString\<close> property
  inherits the one of \<open>Object.prototype\<close> and gives \<open>[object Object]\<close>; an own \<open>toString\<close>
  property of a stored document is data, not a function, so the conversion goes on to
  \<open>valueOf\<close>, gets no primitive value from it either, and raises a TypeError. An array
  joins the texts of its elements with commas, \<open>null\<close> and \<open>undefined\<close> giving the empty
  text, and raises when one of its elements does.
\<close>

fun toStringJS :: "host \<Rightarrow> jsvalue \<Rightarrow> error + jstring" where
  "toStringJS h JUndefined = Inr (js ''undefined'')"
| "toStringJS h JNull = Inr (js ''null'')"
| "toStringJS h (JBool b) = Inr (if b then js ''true'' else js ''false'')"
| "toStringJS h (JNum r) = Inr (numberToString h r)"
| "toStringJS h (JStr s) = Inr s"
| "toStringJS h (JArr xs) =
     (case firstError (map (\<lambda>x. if x = JUndefined \<or> x = JNull then Inr [] else toStringJS h x) xs) of
        Inl e \<Rightarrow> Inl e
      | Inr texts \<Rightarrow> Inr (joinWith (js '','') texts))"
| "toStringJS h (JObj kvs) =
     (if map_of kvs (js ''toString'') \<noteq> None then Inl TypeError
      else Inr (js ''[object Object]''))"

record marker =
  m_id :: jstring
  m_name :: jsvalue
  m_coords :: jsvalue
  m_type :: jstring
  m_saint :: jsvalue
  m_tradition :: jsvalue
  m_traditionType :: jsvalue
  m_gender :: jsvalue
  m_period :: jsvalue
  m_startYear :: jsvalue
  m_endYear :: jsvalue
  m_language :: jsvalue
  m_philosophy :: jsvalue
  m_texts :: jsvalue
  m_presidingDeity :: jsvalue
  m_popup :: jstring
  m_updatedAt :: jsvalue
  m_fullData :: jsvalue

text \<open>\<open>a || b\<close>\<close>

definition orElse :: "jsvalue \<Rightarrow> jsvalue \<Rightarrow> jsvalue" where
  "orElse a b = (if truthy a then a else b)"

text \<open>
  The object literal pushed by \<open>createMarker\<close>; \<open>n\<close> is the number of calls of
  \<open>Math.random\<close> made before this one. The two template literals raise when the
  conversion of \<open>doc._id\<close>, \<open>place.name\<close> or \<open>doc.saint\<close> to text does. The separator in
  \<open>popup\<close> is the mis-encoded em-dash of the file, U+201A U+00C4 U+00EE.
\<close>

definition newMarker :: "host \<Rightarrow> jsvalue \<Rightarrow> jsvalue \<Rightarrow> jstring \<Rightarrow> nat \<Rightarrow> error + marker" where
  "newMarker h doc place type n =
     (case toStringJS h (propOf doc (js ''_id'')) of
        Inl e \<Rightarrow> Inl e
      | Inr idText \<Rightarrow>
     (case toStringJS h (propOf place (js ''name'')) of
        Inl e \<Rightarrow> Inl e
      | Inr nameText \<Rightarrow>
     (case toStringJS h (propOf doc (js ''saint'')) of
        Inl e \<Rightarrow> Inl e
      | Inr saintText \<Rightarrow>
          Inr \<lparr> m_id = idText @ js ''_'' @ type @ js ''_'' @ randomSuffix h n,
                m_name = propOf place (js ''name''),
                m_coords = propOf place (js ''coords''),
                m_type = type,
                m_saint = propOf doc (js ''saint''),
                m_tradition = propOf doc (js ''tradition''),
                m_traditionType = propOf doc (js ''traditionType''),
                m_gender = propOf doc (js ''gender''),
                m_period = propOf doc (js ''period''),
                m_startYear = propOf doc (js ''startYear''),
                m_endYear = propOf doc (js ''endYear''),
                m_language = propOf doc (js ''language''),
                m_philosophy = propOf doc (js ''philosophy''),
                m_texts = orElse (propOf doc (js ''texts'')) (JArr []),
                m_presidingDeity = orElse (propOf doc (js ''presidingDeity'')) JNull,
                m_popup = nameText @ js '' '' @ [0x201A, 0xC4, 0xEE] @ js '' '' @ type
                          @ js '' of '' @ saintText,
                m_updatedAt = orElse (propOf doc (js ''updatedAt'')) JNull,
                m_fullData = doc \<rparr>)))"

text \<open>
  \<open>createMarker(place, type)\<close>. The state is the array \<open>markers\<close> and the number of calls
  of \<open>Math.random\<close> so far. The property reads of the object literal raise when \<open>doc\<close> or
  \<open>place\<close> is \<open>null\<close> or \<open>undefined\<close>.
\<close>

definition createMarker ::
  "host \<Rightarrow> jsvalue \<Rightarrow> jsvalue \<Rightarrow> jstring \<Rightarrow> marker list \<times> nat \<Rightarrow> error + marker list \<times> nat" where
  "createMarker h doc place type st =
     (let coords = optProp place (js ''coords'') in
      if \<not> truthy coords then Inr st
      else
        (case getProp coords (js ''length'') of
           Inl e \<Rightarrow> Inl e
         | Inr len \<Rightarrow>
             if len \<noteq> JNum 2 then Inr st
             else if nullish doc \<or> nullish place then Inl TypeError
             else
               (case newMarker h doc place type (snd st) of
                  Inl e \<Rightarrow> Inl e
                | Inr m \<Rightarrow> Inr (fst st @ [m], Suc (snd st)))))"

text \<open>The body of the \<open>for ... of Object.entries(doc.places)\<close> loop.\<close>

definition placeEntry ::
  "host \<Rightarrow> jsvalue \<Rightarrow> jstring \<times> jsvalue \<Rightarrow> marker list \<times> nat \<Rightarrow> error + marker list \<times> nat" where
  "placeEntry h doc entry st =
     (case entry of
        (type, placeData) \<Rightarrow>
          if \<not> truthy placeData then Inr st
          else
            (case placeData of
               JArr elems \<Rightarrow> forEachE (\<lambda>place. createMarker h doc place type) elems st
             | _ \<Rightarrow> createMarker h doc placeData type st))"

definition convertToMapMarkers :: "host \<Rightarrow> jsvalue \<Rightarrow> error + marker list" where
  "convertToMapMarkers h doc =
     (let places = optProp doc (js ''places'') in
      if \<not> truthy places \<or> \<not> typeofObject places then Inr []
      else
        (case objectEntries places of
           Inl e \<Rightarrow> Inl e
         | Inr entries \<Rightarrow>
             (case forEachE (placeEntry h doc) entries ([], 0) of
                Inl e \<Rightarrow> Inl e
              | Inr st \<Rightarrow> Inr (fst st))))"

section \<open>Filter query builder\<close>

text \<open>
  The query parameters of \<open>/api/traditions\<close> that the tradition filter and the year range
  read; a parameter that is absent is \<open>None\<close>.
\<close>

record criteria =
  q_tradition :: "jstring option"
  q_startYearMin :: "jstring option"
  q_startYearMax :: "jstring option"

text \<open>\<open>if (p)\<close> on a query parameter: present and not the empty string.\<close>

definition supplied :: "jstring option \<Rightarrow> bool" where
  "supplied p = (case p of None \<Rightarrow> False | Some s \<Rightarrow> s \<noteq> [])"

text \<open>\<open>new RegExp(source, flags)\<close>\<close>

datatype regexp = RegExp jstring jstring

text \<open>
  \<open>ExprGte d y\<close> is \<open>{$expr: {$gte: [{$toInt: {$ifNull: ['$startYear', d]}}, y]}}\<close> and
  \<open>ExprLte d y\<close> is the same with \<open>$lte\<close>.
\<close>

datatype yearCondition = ExprGte jstring int | ExprLte jstring int

record filter =
  f_tradition :: "regexp option"
  f_and :: "yearCondition list option"

text \<open>The variants pushed after the search text, by the lower-cased search text.\<close>

definition traditionVariants :: "jstring \<Rightarrow> jstring list" where
  "traditionVariants lowerTrad =
     (if lowerTrad = js ''shaiva'' \<or> lowerTrad = js ''saiva'' then
        [[0x2248, 0xF6] @ js ''aiva'', js ''Saiva'', js ''Shaiva'', js ''Shaivism'']
      else if lowerTrad = js ''vaishnava'' \<or> lowerTrad = js ''vaisnava'' then
        [js ''Vai'' @ [0xB7, 0x3C0, 0xA3, 0xB7, 0x3C0, 0xE1] @ js ''ava'', js ''Vaisnava'',
         js ''Vaishnava'', js ''Vaishnavism'']
      else if lowerTrad = js ''lingayat'' then
        [js ''Li'' @ [0xB7, 0x3C0, 0xD6] @ js ''g'' @ [0x192, 0xC5] @ js ''yat'',
         js ''Ling'' @ [0x192, 0xC5] @ js ''yat'',
         js ''Virashaiva'',
         js ''V'' @ [0x192, 0xB4] @ js ''ra'' @ [0x2248, 0xF5] @ js ''aiva'']
      else if lowerTrad = js ''varkari'' then
        [js ''V'' @ [0x192, 0xC5] @ js ''rkari'', js ''Varkari Sampradaya'']
      else if lowerTrad = js ''gaudiya'' then
        [js ''Gau'' @ [0xB7, 0x220F, 0xE7, 0x192, 0xB4] @ js ''ya'',
         js ''Gaud'' @ [0x192, 0xB4] @ js ''ya'']
      else if lowerTrad = js ''alvars'' then
        [[0x192, 0xC4, 0xB7, 0x220F, 0xAA] @ js ''v'' @ [0x192, 0xC5] @ js ''rs'', js ''Alwars'']
      else if lowerTrad = js ''nayanars'' then
        [js ''N'' @ [0x192, 0xC5] @ js ''yan'' @ [0x192, 0xC5] @ js ''rs'', js ''Nayanmars'']
      else [])"

text \<open>The class \<open>[.*+?^${}()|[\]\\]\<close>.\<close>

definition isMetaChar :: "jchar \<Rightarrow> bool" where
  "isMetaChar c \<longleftrightarrow>
     c = 0x2E \<or> c = 0x2A \<or> c = 0x2B \<or> c = 0x3F \<or> c = 0x5E \<or> c = 0x24 \<or> c = 0x7B \<or>
     c = 0x7D \<or> c = 0x28 \<or> c = 0x29 \<or> c = 0x7C \<or> c = 0x5B \<or> c = 0x5D \<or> c = 0x5C"

text \<open>\<open>v.replace(/[.*+?^${}()|[\]\\]/g, '\\$&')\<close>\<close>

fun escapeRegExp :: "jstring \<Rightarrow> jstring" where
  "escapeRegExp [] = []"
| "escapeRegExp (c # cs) =
     (if isMetaChar c then 0x5C # c # escapeRegExp cs else c # escapeRegExp cs)"

definition traditionFilter :: "jstring \<Rightarrow> regexp" where
  "traditionFilter tradition =
     (let tradSearch = trim tradition;
          lowerTrad = toLowerCase tradSearch;
          variations = [tradSearch] @ traditionVariants lowerTrad;
          escaped = map escapeRegExp variations
      in RegExp (joinWith (js ''|'') escaped) (js ''i''))"

text \<open>
  \<open>parseInt(s, 10)\<close>: leading white space, an optional sign, then the longest run of
  digits; \<open>None\<close> is \<open>NaN\<close>. The value is exact (a double is exact up to 2^53).
\<close>

definition isDigit :: "jchar \<Rightarrow> bool" where
  "isDigit c \<longleftrightarrow> 0x30 \<le> c \<and> c \<le> 0x39"

definition digitsValue :: "jstring \<Rightarrow> int" where
  "digitsValue ds = foldl (\<lambda>acc c. 10 * acc + (uint c - 0x30)) 0 ds"

definition parseInt :: "jstring \<Rightarrow> int option" where
  "parseInt s =
     (let t = dropWhile isSpace s;
          negative = (case t of [] \<Rightarrow> False | c # cs \<Rightarrow> c = 0x2D);
          u = (case t of [] \<Rightarrow> [] | c # cs \<Rightarrow> if c = 0x2D \<or> c = 0x2B then cs else t);
          ds = takeWhile isDigit u
      in if ds = [] then None
         else Some (if negative then - digitsValue ds else digitsValue ds))"

definition yearConditions :: "criteria \<Rightarrow> yearCondition list" where
  "yearConditions q =
     (case q_startYearMin q of
        None \<Rightarrow> []
      | Some startYearMin \<Rightarrow>
          if startYearMin = [] then []
          else
            (case parseInt startYearMin of
               None \<Rightarrow> []
             | Some minYear \<Rightarrow> [ExprGte (js ''0'') minYear]))
     @
     (case q_startYearMax q of
        None \<Rightarrow> []
      | Some startYearMax \<Rightarrow>
          if startYearMax = [] then []
          else
            (case parseInt startYearMax of
               None \<Rightarrow> []
             | Some maxYear \<Rightarrow> [ExprLte (js ''9999'') maxYear]))"

text \<open>The tradition and year-range part of the filter built by \<open>/api/traditions\<close>.\<close>

definition buildFilter :: "criteria \<Rightarrow> filter" where
  "buildFilter q =
     \<lparr> f_tradition =
         (case q_tradition q of
            None \<Rightarrow> None
          | Some tradition \<Rightarrow> if tradition = [] then None else Some (traditionFilter tradition)),
       f_and =
         (if supplied (q_startYearMin q) \<or> supplied (q_startYearMax q) then
            (if yearConditions q \<noteq> [] then Some (yearConditions q) else None)
          else None) \<rparr>"

section \<open>The document store's reading of a filter\<close>

text \<open>
  The source of a regular expression that is an alternation of literals in which every
  metacharacter is escaped, which is what \<open>traditionFilter\<close> builds: its alternatives,
  with the escapes removed.
\<close>

fun alternatives :: "jstring \<Rightarrow> jstring list" where
  "alternatives [] = [[]]"
| "alternatives [c] = (if c = 0x7C then [[], []] else [[c]])"
| "alternatives (c # d # cs) =
     (if c = 0x5C then
        (case alternatives cs of [] \<Rightarrow> [[d]] | a # as \<Rightarrow> (d # a) # as)
      else if c = 0x7C then [] # alternatives (d # cs)
      else (case alternatives (d # cs) of [] \<Rightarrow> [[c]] | a # as \<Rightarrow> (c # a) # as))"

text \<open>Two code units that a caseless comparison takes for the same: equal once lower-cased.\<close>

definition caselessEq :: "jchar \<Rightarrow> jchar \<Rightarrow> bool" where
  "caselessEq a b \<longleftrightarrow> lowerUnit a = lowerUnit b"

fun caselessPrefix :: "jstring \<Rightarrow> jstring \<Rightarrow> bool" where
  "caselessPrefix [] s = True"
| "caselessPrefix (p # ps) [] = False"
| "caselessPrefix (p # ps) (c # cs) = (if caselessEq p c then caselessPrefix ps cs else False)"

fun caselessIncludes :: "jstring \<Rightarrow> jstring \<Rightarrow> bool" where
  "caselessIncludes [] p = (p = [])"
| "caselessIncludes (c # cs) p = (if caselessPrefix p (c # cs) then True else caselessIncludes cs p)"

text \<open>A string field against a regular expression: some alternative occurs in the field.\<close>

definition regexMatches :: "regexp \<Rightarrow> jstring \<Rightarrow> bool" where
  "regexMatches re field =
     (case re of
        RegExp source flags \<Rightarrow>
          if 0x69 \<in> set flags
          then list_ex (\<lambda>alt. caselessIncludes field alt) (alternatives source)
          else list_ex (\<lambda>alt. includesStr field alt) (alternatives source))"

text \<open>
  The \<open>tradition\<close> predicate on a document: a string field is matched against the
  expression, an array field matches when one of its strings does, and a document
  without the field, or with another kind of value in it, does not match.
\<close>

definition matchesTradition :: "filter \<Rightarrow> jsvalue \<Rightarrow> bool" where
  "matchesTradition f doc =
     (case f_tradition f of
        None \<Rightarrow> True
      | Some re \<Rightarrow>
          (case optProp doc (js ''tradition'') of
             JStr s \<Rightarrow> regexMatches re s
           | JArr xs \<Rightarrow> list_ex (\<lambda>x. case x of JStr s \<Rightarrow> regexMatches re s | _ \<Rightarrow> False) xs
           | _ \<Rightarrow> False))"

text \<open>
  \<open>$toInt\<close>: a string must be a base-10 integer (an optional sign and digits, nothing
  else) in the 32-bit range, a number is truncated, a boolean is 0 or 1; anything else
  is a conversion failure, which fails the query.
\<close>

definition toInt :: "jsvalue \<Rightarrow> error + int" where
  "toInt v =
     (case v of
        JStr s \<Rightarrow>
          (let u = (case s of [] \<Rightarrow> [] | c # cs \<Rightarrow> if c = 0x2D \<or> c = 0x2B then cs else s);
               n = (case s of [] \<Rightarrow> 0 | c # cs \<Rightarrow> if c = 0x2D then - digitsValue u else digitsValue u)
           in if u \<noteq> [] \<and> list_all isDigit u \<and> - (2 ^ 31) \<le> n \<and> n < 2 ^ 31 then Inr n
              else Inl ConversionFailure)
      | JNum r \<Rightarrow>
          (let n = (if 0 \<le> r then \<lfloor>r\<rfloor> else \<lceil>r\<rceil>)
           in if - (2 ^ 31) \<le> n \<and> n < 2 ^ 31 then Inr n else Inl ConversionFailure)
      | JBool b \<Rightarrow> Inr (if b then 1 else 0)
      | _ \<Rightarrow> Inl ConversionFailure)"

text \<open>\<open>{$ifNull: ['$startYear', d]}\<close>: the field, or \<open>d\<close> when it is missing or \<open>null\<close>.\<close>

definition startYearOr :: "jsvalue \<Rightarrow> jstring \<Rightarrow> jsvalue" where
  "startYearOr doc d =
     (let v = optProp doc (js ''startYear'') in if nullish v then JStr d else v)"

definition yearConditionHolds :: "yearCondition \<Rightarrow> jsvalue \<Rightarrow> error + bool" where
  "yearConditionHolds c doc =
     (case c of
        ExprGte d y \<Rightarrow> (case toInt (startYearOr doc d) of Inl e \<Rightarrow> Inl e | Inr n \<Rightarrow> Inr (y \<le> n))
      | ExprLte d y \<Rightarrow> (case toInt (startYearOr doc d) of Inl e \<Rightarrow> Inl e | Inr n \<Rightarrow> Inr (n \<le> y)))"

fun allHold :: "yearCondition list \<Rightarrow> jsvalue \<Rightarrow> error + bool" where
  "allHold [] doc = Inr True"
| "allHold (c # cs) doc =
     (case yearConditionHolds c doc of
        Inl e \<Rightarrow> Inl e
      | Inr b \<Rightarrow> (case allHold cs doc of Inl e \<Rightarrow> Inl e | Inr b' \<Rightarrow> Inr (b \<and> b')))"

text \<open>Whether the query with this filter returns the document.\<close>

definition matchesFilter :: "filter \<Rightarrow> jsvalue \<Rightarrow> error + bool" where
  "matchesFilter f doc =
     (case allHold (case f_and f of None \<Rightarrow> [] | Some cs \<Rightarrow> cs) doc of
        Inl e \<Rightarrow> Inl e
      | Inr b \<Rightarrow> Inr (matchesTradition f doc \<and> b))"

section \<open>Notions of the specification and example inputs\<close>

text \<open>
  A value that a template literal can put into text: not an object with an own
  \<open>toString\<close> property, and not an array holding one. Every string, number and boolean is
  such a value, and so are \<open>null\<close> and an absent field.
\<close>

fun stringifiable :: "jsvalue \<Rightarrow> bool" where
  "stringifiable (JObj kvs) = (map_of kvs (js ''toString'') = None)"
| "stringifiable (JArr xs) = (\<forall>x \<in> set xs. x = JUndefined \<or> x = JNull \<or> stringifiable x)"
| "stringifiable v = True"

text \<open>
  A Place as the data model has it: an object whose \<open>name\<close> is a string (here, more
  widely, any value that can be put into text) and whose \<open>coords\<close> are absent, \<open>null\<close> or
  an array. An entry of the places map is a Place, a list of Places, or \<open>null\<close>.
\<close>

definition isPlace :: "jsvalue \<Rightarrow> bool" where
  "isPlace p =
     (case p of
        JObj kvs \<Rightarrow>
          stringifiable (propOf p (js ''name'')) \<and>
          (case map_of kvs (js ''coords'') of
             None \<Rightarrow> True
           | Some JNull \<Rightarrow> True
           | Some (JArr xs) \<Rightarrow> True
           | Some _ \<Rightarrow> False)
      | _ \<Rightarrow> False)"

definition isPlaceSlot :: "jsvalue \<Rightarrow> bool" where
  "isPlaceSlot e = (case e of JNull \<Rightarrow> True | JArr ps \<Rightarrow> list_all isPlace ps | _ \<Rightarrow> isPlace e)"

text \<open>A Place with a \<open>coords\<close> value of length exactly 2.\<close>

definition hasTwoCoords :: "jsvalue \<Rightarrow> bool" where
  "hasTwoCoords p = (case propOf p (js ''coords'') of JArr xs \<Rightarrow> length xs = 2 | _ \<Rightarrow> False)"

text \<open>The (category, Place) pairs of one entry of the places map, in order.\<close>

definition slotPlaces :: "jstring \<times> jsvalue \<Rightarrow> (jstring \<times> jsvalue) list" where
  "slotPlaces entry =
     (case entry of
        (type, e) \<Rightarrow> (case e of JNull \<Rightarrow> [] | JArr ps \<Rightarrow> map (Pair type) ps | _ \<Rightarrow> [(type, e)]))"

text \<open>The category, name and coordinates a marker carries, and those of a pair.\<close>

definition markerPlace :: "marker \<Rightarrow> jstring \<times> jsvalue \<times> jsvalue" where
  "markerPlace m = (m_type m, m_name m, m_coords m)"

definition placeOf :: "jstring \<times> jsvalue \<Rightarrow> jstring \<times> jsvalue \<times> jsvalue" where
  "placeOf tp = (fst tp, propOf (snd tp) (js ''name''), propOf (snd tp) (js ''coords''))"

text \<open>A marker without its id, and two states of \<open>createMarker\<close> that differ in ids only.\<close>

definition eraseId :: "marker \<Rightarrow> marker" where
  "eraseId m = m\<lparr> m_id := [] \<rparr>"

definition sameButIds :: "marker list \<times> nat \<Rightarrow> marker list \<times> nat \<Rightarrow> bool" where
  "sameButIds s1 s2 \<longleftrightarrow> map eraseId (fst s1) = map eraseId (fst s2) \<and> snd s1 = snd s2"

text \<open>The record of the specification's example, and a host whose every draw gives \<open>suffix\<close>.\<close>

definition exampleRecord :: jsvalue where
  "exampleRecord =
     JObj [(js ''_id'', JStr (js ''65a1'')),
           (js ''saint'', JStr (js ''Basava'')),
           (js ''places'',
              JObj [(js ''birth'', JObj [(js ''name'', JStr (js ''X'')), (js ''coords'', JArr [JNum 1, JNum 2])]),
                    (js ''temple'', JArr [JObj [(js ''name'', JStr (js ''Y'')), (js ''coords'', JNull)]])])]"

definition hostDrawing :: "jstring \<Rightarrow> host" where
  "hostDrawing suffix = \<lparr> numberToString = (\<lambda>r. []), randomSuffix = (\<lambda>n. suffix) \<rparr>"

text \<open>Requests with a single parameter, and a record with a given tradition and no start year.\<close>

definition onlyTradition :: "jstring \<Rightarrow> criteria" where
  "onlyTradition t = \<lparr> q_tradition = Some t, q_startYearMin = None, q_startYearMax = None \<rparr>"

definition onlyStartYearMin :: "jstring \<Rightarrow> criteria" where
  "onlyStartYearMin b = \<lparr> q_tradition = None, q_startYearMin = Some b, q_startYearMax = None \<rparr>"

definition onlyStartYearMax :: "jstring \<Rightarrow> criteria" where
  "onlyStartYearMax b = \<lparr> q_tradition = None, q_startYearMin = None, q_startYearMax = Some b \<rparr>"

definition recordOfTradition :: "jstring \<Rightarrow> jsvalue" where
  "recordOfTradition t = JObj [(js ''saint'', JStr (js ''Basava'')), (js ''tradition'', JStr t)]"

text \<open>
  What the specification calls a set of tokens: no element twice, every element a string
  of at least two code units.
\<close>

definition tokenSet :: "normalized list \<Rightarrow> bool" where
  "tokenSet results \<longleftrightarrow> distinct results \<and> (\<forall>t \<in> set results. \<exists>s. t = NStr s \<and> 2 \<le> length s)"

text \<open>
  Title case in the specification's words: the first letter of each word delimited by
  white space is capitalized and nothing else changes.
\<close>

fun titleCaseFrom :: "bool \<Rightarrow> jstring \<Rightarrow> jstring" where
  "titleCaseFrom atWordStart [] = []"
| "titleCaseFrom atWordStart (c # cs) =
     (if isSpace c then c # titleCaseFrom True cs
      else (if atWordStart then upperUnit c else [c]) @ titleCaseFrom False cs)"

definition titleCase :: "jstring \<Rightarrow> jstring" where
  "titleCase s = titleCaseFrom True s"



section \<open>Evaluation\<close>

text \<open>The definitions a concrete run of the parsers and of the normalizers unfolds.\<close>

lemma list_ex_first: "list_ex P (x # xs) = (if P x then True else list_ex P xs)"
  by simp

lemmas string_defs =
  js_def trim_def isSpace_def toLowerCase_def toUpperCase_def lowerUnit_def upperUnit_def
  pairedBlock_def pairedBlockOdd_def startsWith_def ciChar_def capitalize_def
  removeParenChars_def lookupProp_def truthyN_def lengthN_def setAdd_def

lemmas language_defs =
  closeParen_def longParenthetical_def endsWithDialect_def dialectGroup_def parenOrDialect_def
  commaOrSlash_def parenthetical_def separator_def skipPhrases_def qualifierWords_def
  dialectParts_def languagePart_def parseLanguageValue_def normalizeLanguageName_def
  languageNormalizations_def

lemmas tradition_defs =
  closeParen_def parenthetical_def dashSeparator_def slashSeparator_def whitespaceRun_def
  parenMatch_def descriptionWords_def excludedAlternates_def suffixWord_def
  traditionAlternate_def traditionSubPart_def parseTraditionValue_def
  normalizeTraditionName_def traditionNormalizations_def

lemmas projector_defs =
  convertToMapMarkers_def optProp_def nullish_def propOf_def truthy_def typeofObject_def
  objectEntries_def placeEntry_def createMarker_def getProp_def newMarker_def orElse_def

lemmas filter_defs =
  buildFilter_def traditionFilter_def traditionVariants_def isMetaChar_def supplied_def
  yearConditions_def parseInt_def isDigit_def digitsValue_def
  matchesFilter_def matchesTradition_def regexMatches_def caselessEq_def
  toInt_def startYearOr_def yearConditionHolds_def optProp_def propOf_def nullish_def
  onlyTradition_def onlyStartYearMin_def onlyStartYearMax_def recordOfTradition_def
  js_def trim_def isSpace_def toLowerCase_def lowerUnit_def pairedBlock_def pairedBlockOdd_def
  startsWith_def

section \<open>Loops\<close>

text \<open>An invariant of the state that every step keeps, and that no step raises under.\<close>

lemma forEachE_invariant:
  assumes "\<And>x s. I s \<Longrightarrow> \<exists>s'. f x s = Inr s' \<and> I s'" and "I s"
  shows "\<exists>s'. forEachE f xs s = Inr s' \<and> I s'"
  using assms(2)
proof (induction xs arbitrary: s)
  case Nil
  then show ?case by simp
next
  case (Cons x xs)
  from assms(1) [OF Cons.prems, of x] obtain s1 where "f x s = Inr s1" and "I s1" by blast
  with Cons.IH [of s1] show ?case by simp
qed

section \<open>The length floor of the normalizers\<close>

lemma length_collapseSpaces_le: "length (collapseSpaces s) \<le> length s"
proof (induction s rule: collapseSpaces.induct)
  case 1
  then show ?case by simp
next
  case (2 c cs)
  have "length (dropWhile isSpace cs) \<le> length cs" by (rule length_dropWhile_le)
  with 2 show ?case by auto
qed

lemma length_removeParenChars_le: "length (removeParenChars s) \<le> length s"
  by (simp add: removeParenChars_def)

text \<open>
  C6, as the code has it. Both normalizers start with \<open>if (!name) return name\<close>, so the
  empty string comes back as the empty string, not as \<open>null\<close>. Any other token whose
  trimmed form has fewer than two code units gives \<open>null\<close>.
\<close>

theorem normalize_length_floor:
  "(name = [] \<longrightarrow> normalizeLanguageName name = NStr [] \<and> normalizeTraditionName name = NStr [])
   \<and> (name \<noteq> [] \<and> length (trim name) < 2 \<longrightarrow>
        normalizeLanguageName name = NNull \<and> normalizeTraditionName name = NNull)"
proof -
  have a: "length (collapseSpaces (removeParenChars (trim name))) \<le> length (trim name)"
    using length_collapseSpaces_le [of "removeParenChars (trim name)"]
      length_removeParenChars_le [of "trim name"] by linarith
  have b: "length (collapseSpaces (trim name)) \<le> length (trim name)"
    by (rule length_collapseSpaces_le)
  show ?thesis
    using a b by (auto simp: normalizeLanguageName_def normalizeTraditionName_def Let_def)
qed

theorem normalize_length_floor_witness:
  "js ''a'' \<noteq> [] \<and> length (trim (js ''a'')) < 2
   \<and> normalizeLanguageName (js ''a'') = NNull \<and> normalizeTraditionName (js ''a'') = NNull
   \<and> normalizeLanguageName [] = NStr [] \<and> normalizeTraditionName [] = NStr []"
  using normalize_length_floor [of "js ''a''"] normalize_length_floor [of "[]"]
  by (simp add: js_def trim_def isSpace_def)

text \<open>C6 as stated fails at the empty string: neither normalizer returns \<open>null\<close> for it.\<close>

theorem normalize_empty_counterexample:
  "normalizeLanguageName (js '''') \<noteq> NNull \<and> normalizeTraditionName (js '''') \<noteq> NNull"
  by (simp add: js_def normalizeLanguageName_def normalizeTraditionName_def)

section \<open>Dialect extraction\<close>

lemma dialect_group_found:
  "regexMatchAll dialectGroup (js ''Hindi (Braj, Avadhi dialects)'') = [js ''(Braj, Avadhi dialects)'']"
  by (simp add: string_defs language_defs)

lemma dialect_parts_extracted:
  "dialectParts (js ''(Braj, Avadhi dialects)'') = [js ''Braj'', js ''Avadhi'']"
  by (simp add: string_defs language_defs)

text \<open>
  C4. \<open>parseLanguageValue\<close> on \<open>Hindi (Braj, Avadhi dialects)\<close> returns \<open>Hindi\<close>,
  \<open>Braj Bhasha\<close> and \<open>Awadhi\<close>, each once.
\<close>

theorem parse_language_dialects:
  "parseLanguageValue (JStr (js ''Hindi (Braj, Avadhi dialects)'')) =
     Inr [NStr (js ''Hindi''), NStr (js ''Braj Bhasha''), NStr (js ''Awadhi'')]"
  by (simp add: string_defs language_defs Let_def)

section \<open>Markers of a well-formed record\<close>

lemma firstError_all_Inr:
  "(\<And>x. x \<in> set xs \<Longrightarrow> \<exists>a. x = Inr a) \<Longrightarrow> \<exists>as. firstError xs = Inr as"
proof (induction xs)
  case Nil
  then show ?case by simp
next
  case (Cons x xs)
  then obtain a where "x = Inr a" by auto
  moreover obtain as where "firstError xs = Inr as" using Cons by auto
  ultimately show ?case by simp
qed

lemma toStringJS_stringifiable:
  "stringifiable v \<Longrightarrow> \<exists>text. toStringJS h v = Inr text"
proof (induction h v rule: toStringJS.induct)
  case (6 h xs)
  have "\<exists>as. firstError (map (\<lambda>x. if x = JUndefined \<or> x = JNull then Inr [] else toStringJS h x) xs) = Inr as"
  proof (rule firstError_all_Inr)
    fix y
    assume "y \<in> set (map (\<lambda>x. if x = JUndefined \<or> x = JNull then Inr [] else toStringJS h x) xs)"
    then obtain x where x: "x \<in> set xs"
      and y: "y = (if x = JUndefined \<or> x = JNull then Inr [] else toStringJS h x)" by auto
    show "\<exists>a. y = Inr a"
    proof (cases "x = JUndefined \<or> x = JNull")
      case True
      then show ?thesis using y by simp
    next
      case False
      then have "stringifiable x" using 6(2) x by auto
      then show ?thesis using 6(1) [OF x False] y False by simp
    qed
  qed
  then show ?case by auto
qed simp_all

lemma isPlace_not_nullish: "isPlace p \<Longrightarrow> \<not> nullish p"
  by (auto simp: isPlace_def nullish_def)

lemma newMarker_place:
  assumes "stringifiable (propOf doc (js ''_id''))" and "stringifiable (propOf doc (js ''saint''))"
    and "stringifiable (propOf p (js ''name''))"
  shows "\<exists>m. newMarker h doc p t n = Inr m \<and> markerPlace m = placeOf (t, p)"
proof -
  obtain idText where a: "toStringJS h (propOf doc (js ''_id'')) = Inr idText"
    using toStringJS_stringifiable [OF assms(1)] by blast
  obtain saintText where b: "toStringJS h (propOf doc (js ''saint'')) = Inr saintText"
    using toStringJS_stringifiable [OF assms(2)] by blast
  obtain nameText where c: "toStringJS h (propOf p (js ''name'')) = Inr nameText"
    using toStringJS_stringifiable [OF assms(3)] by blast
  show ?thesis by (simp add: newMarker_def a b c markerPlace_def placeOf_def)
qed

lemma createMarker_place:
  assumes "isPlace p" and "\<not> nullish doc"
    and "stringifiable (propOf doc (js ''_id''))" and "stringifiable (propOf doc (js ''saint''))"
  shows "\<exists>st'. createMarker h doc p t st = Inr st'
           \<and> map markerPlace (fst st') =
               map markerPlace (fst st) @ map placeOf (filter (\<lambda>tp. hasTwoCoords (snd tp)) [(t, p)])"
proof -
  obtain kvs where p: "p = JObj kvs"
    using assms(1) by (auto simp: isPlace_def split: jsvalue.splits)
  have name: "stringifiable (propOf p (js ''name''))"
    using assms(1) by (simp add: isPlace_def p)
  obtain m where m: "newMarker h doc p t (snd st) = Inr m" "markerPlace m = placeOf (t, p)"
    using newMarker_place [OF assms(3,4) name] by blast
  show ?thesis
  proof (cases "map_of kvs (js ''coords'')")
    case None
    then show ?thesis
      by (simp add: createMarker_def optProp_def propOf_def p nullish_def truthy_def hasTwoCoords_def)
  next
    case (Some c)
    then consider "c = JNull" | xs where "c = JArr xs"
      using assms(1) by (auto simp: isPlace_def p split: jsvalue.splits)
    then show ?thesis
    proof cases
      case 1
      then show ?thesis using Some
        by (simp add: createMarker_def optProp_def propOf_def p nullish_def truthy_def hasTwoCoords_def)
    next
      case 2
      have coords: "optProp p (js ''coords'') = JArr xs" "propOf p (js ''coords'') = JArr xs"
        using 2 Some by (simp_all add: optProp_def propOf_def p nullish_def)
      have np: "\<not> nullish p" by (simp add: p nullish_def)
      show ?thesis
      proof (cases "length xs = 2")
        case True
        then show ?thesis using m assms(2) np
          by (simp add: createMarker_def coords truthy_def getProp_def nullish_def
              hasTwoCoords_def propOf_def [of "JArr xs"])
      next
        case False
        then show ?thesis
          by (simp add: createMarker_def coords truthy_def getProp_def nullish_def
              hasTwoCoords_def propOf_def [of "JArr xs"])
      qed
    qed
  qed
qed

lemma forEachE_places:
  assumes "list_all isPlace ps" and "\<not> nullish doc"
    and "stringifiable (propOf doc (js ''_id''))" and "stringifiable (propOf doc (js ''saint''))"
  shows "\<exists>st'. forEachE (\<lambda>place. createMarker h doc place t) ps st = Inr st'
           \<and> map markerPlace (fst st') =
               map markerPlace (fst st) @ map placeOf (filter (\<lambda>tp. hasTwoCoords (snd tp)) (map (Pair t) ps))"
  using assms(1)
proof (induction ps arbitrary: st)
  case Nil
  then show ?case by simp
next
  case (Cons p ps)
  then have p: "isPlace p" and ps: "list_all isPlace ps" by simp_all
  from createMarker_place [OF p assms(2,3,4), of h t st] obtain st1 where
    step: "createMarker h doc p t st = Inr st1" and
    o1: "map markerPlace (fst st1) =
           map markerPlace (fst st) @ map placeOf (filter (\<lambda>tp. hasTwoCoords (snd tp)) [(t, p)])"
    by blast
  from Cons.IH [OF ps, of st1] obtain st' where
    run: "forEachE (\<lambda>place. createMarker h doc place t) ps st1 = Inr st'" and
    out: "map markerPlace (fst st') =
            map markerPlace (fst st1) @ map placeOf (filter (\<lambda>tp. hasTwoCoords (snd tp)) (map (Pair t) ps))"
    by blast
  have "forEachE (\<lambda>place. createMarker h doc place t) (p # ps) st = Inr st'"
    using step run by simp
  moreover have "map markerPlace (fst st') =
      map markerPlace (fst st) @ map placeOf (filter (\<lambda>tp. hasTwoCoords (snd tp)) (map (Pair t) (p # ps)))"
    using out o1 by simp
  ultimately show ?case by blast
qed

lemma placeEntry_slot:
  assumes "isPlaceSlot e" and "\<not> nullish doc"
    and "stringifiable (propOf doc (js ''_id''))" and "stringifiable (propOf doc (js ''saint''))"
  shows "\<exists>st'. placeEntry h doc (t, e) st = Inr st'
           \<and> map markerPlace (fst st') =
               map markerPlace (fst st) @ map placeOf (filter (\<lambda>tp. hasTwoCoords (snd tp)) (slotPlaces (t, e)))"
proof (cases e)
  case JNull
  then show ?thesis by (simp add: placeEntry_def truthy_def slotPlaces_def)
next
  case (JArr ps)
  then have "list_all isPlace ps" using assms(1) by (simp add: isPlaceSlot_def)
  from forEachE_places [OF this assms(2,3,4), of h t st] show ?thesis
    using JArr by (simp add: placeEntry_def truthy_def slotPlaces_def)
next
  case (JObj kvs)
  then have p: "isPlace e" using assms(1) by (simp add: isPlaceSlot_def)
  from createMarker_place [OF p assms(2,3,4), of h t st] show ?thesis
    using JObj by (simp add: placeEntry_def truthy_def slotPlaces_def)
qed (use assms(1) in \<open>simp_all add: isPlaceSlot_def isPlace_def\<close>)

lemma forEachE_entries:
  assumes "list_all (\<lambda>entry. isPlaceSlot (snd entry)) entries" and "\<not> nullish doc"
    and "stringifiable (propOf doc (js ''_id''))" and "stringifiable (propOf doc (js ''saint''))"
  shows "\<exists>st'. forEachE (placeEntry h doc) entries st = Inr st'
           \<and> map markerPlace (fst st') =
               map markerPlace (fst st)
               @ map placeOf (filter (\<lambda>tp. hasTwoCoords (snd tp)) (concat (map slotPlaces entries)))"
  using assms(1)
proof (induction entries arbitrary: st)
  case Nil
  then show ?case by simp
next
  case (Cons entry entries)
  obtain t e where entry: "entry = (t, e)" by (cases entry)
  from Cons.prems have e: "isPlaceSlot e" and es: "list_all (\<lambda>entry. isPlaceSlot (snd entry)) entries"
    by (simp_all add: entry)
  from placeEntry_slot [OF e assms(2,3,4), of h t st] obtain st1 where
    s1: "placeEntry h doc (t, e) st = Inr st1" and
    o1: "map markerPlace (fst st1) =
           map markerPlace (fst st) @ map placeOf (filter (\<lambda>tp. hasTwoCoords (snd tp)) (slotPlaces (t, e)))"
    by blast
  from Cons.IH [OF es, of st1] obtain st' where
    s2: "forEachE (placeEntry h doc) entries st1 = Inr st'" and
    o2: "map markerPlace (fst st') =
           map markerPlace (fst st1)
           @ map placeOf (filter (\<lambda>tp. hasTwoCoords (snd tp)) (concat (map slotPlaces entries)))"
    by blast
  have "forEachE (placeEntry h doc) (entry # entries) st = Inr st'"
    using s1 s2 by (simp add: entry)
  moreover have "map markerPlace (fst st') =
      map markerPlace (fst st)
      @ map placeOf (filter (\<lambda>tp. hasTwoCoords (snd tp)) (concat (map slotPlaces (entry # entries))))"
    using o1 o2 by (simp add: entry)
  ultimately show ?case by blast
qed

text \<open>
  C3. For a record whose \<open>_id\<close> and \<open>saint\<close> can be put into text and whose places map
  holds Places, lists of Places and \<open>null\<close>, \<open>convertToMapMarkers\<close> raises nothing and
  returns, in order, one marker for each (category, Place) pair whose Place has \<open>coords\<close>
  of length 2, carrying that category, name and coordinates, and no marker for any
  other Place.
\<close>

theorem one_marker_per_geocoded_place:
  assumes "doc = JObj kvs"
    and "stringifiable (propOf doc (js ''_id''))" and "stringifiable (propOf doc (js ''saint''))"
    and "map_of kvs (js ''places'') = Some (JObj entries)"
    and "list_all (\<lambda>entry. isPlaceSlot (snd entry)) entries"
  shows "\<exists>ms. convertToMapMarkers h doc = Inr ms
           \<and> map markerPlace ms =
               map placeOf (filter (\<lambda>tp. hasTwoCoords (snd tp)) (concat (map slotPlaces entries)))"
proof -
  have nn: "\<not> nullish doc" using assms(1) by (simp add: nullish_def)
  have pl: "optProp doc (js ''places'') = JObj entries"
    using assms(1,4) by (simp add: optProp_def nullish_def propOf_def)
  from forEachE_entries [OF assms(5) nn assms(2,3), of h "([], 0)"] obtain st' where
    run: "forEachE (placeEntry h doc) entries ([], 0) = Inr st'" and
    out: "map markerPlace (fst st') =
            map placeOf (filter (\<lambda>tp. hasTwoCoords (snd tp)) (concat (map slotPlaces entries)))"
    by auto
  have "convertToMapMarkers h doc = Inr (fst st')"
    using pl run by (simp add: convertToMapMarkers_def truthy_def typeofObject_def objectEntries_def)
  with out show ?thesis by blast
qed

theorem one_marker_per_geocoded_place_witness:
  "\<exists>ms. convertToMapMarkers (hostDrawing (js ''i'')) exampleRecord = Inr ms
        \<and> map markerPlace ms = [(js ''birth'', JStr (js ''X''), JArr [JNum 1, JNum 2])]"
  using one_marker_per_geocoded_place
    [of exampleRecord
        "[(js ''_id'', JStr (js ''65a1'')), (js ''saint'', JStr (js ''Basava'')),
          (js ''places'',
             JObj [(js ''birth'', JObj [(js ''name'', JStr (js ''X'')), (js ''coords'', JArr [JNum 1, JNum 2])]),
                   (js ''temple'', JArr [JObj [(js ''name'', JStr (js ''Y'')), (js ''coords'', JNull)]])])]"
        "[(js ''birth'', JObj [(js ''name'', JStr (js ''X'')), (js ''coords'', JArr [JNum 1, JNum 2])]),
          (js ''temple'', JArr [JObj [(js ''name'', JStr (js ''Y'')), (js ''coords'', JNull)]])]"
        "hostDrawing (js ''i'')"]
  by (simp add: exampleRecord_def js_def isPlaceSlot_def isPlace_def hasTwoCoords_def slotPlaces_def
      placeOf_def propOf_def)

text \<open>
  Outside the data model the template literals can raise: a Place whose \<open>name\<close> is an
  object with an own \<open>toString\<close> property makes \<open>convertToMapMarkers\<close> fail.
\<close>

lemma unprintable_name_raises:
  "convertToMapMarkers h
     (JObj [(js ''places'',
             JObj [(js ''birth'',
                    JObj [(js ''name'', JObj [(js ''toString'', JNum 1)]),
                          (js ''coords'', JArr [JNum 1, JNum 2])])])])
   = Inl TypeError"
  by (simp add: projector_defs js_def Let_def)

section \<open>Markers without a places map\<close>

text \<open>
  C10. When \<open>places\<close> is absent, \<open>null\<close> or not an object (and when the document itself is
  \<open>null\<close> or \<open>undefined\<close>), \<open>convertToMapMarkers\<close> returns the empty list; a \<open>null\<close> entry
  of the places map and a \<open>null\<close> element of a list of Places are skipped. Nothing raises.
\<close>

theorem no_places_no_markers:
  "(optProp doc (js ''places'') = JNull \<or> \<not> typeofObject (optProp doc (js ''places''))
      \<longrightarrow> convertToMapMarkers h doc = Inr [])
   \<and> placeEntry h doc (type, JNull) st = Inr st
   \<and> createMarker h doc JNull type st = Inr st"
  by (auto simp: convertToMapMarkers_def placeEntry_def createMarker_def truthy_def optProp_def
      nullish_def Let_def)

theorem no_places_no_markers_witness:
  "convertToMapMarkers (hostDrawing (js ''i'')) (JObj [(js ''saint'', JStr (js ''Basava''))]) = Inr []
   \<and> convertToMapMarkers (hostDrawing (js ''i'')) (JObj [(js ''places'', JNull)]) = Inr []
   \<and> convertToMapMarkers (hostDrawing (js ''i'')) (JObj [(js ''places'', JStr (js ''Kudalasangama''))]) = Inr []
   \<and> convertToMapMarkers (hostDrawing (js ''i'')) (JObj [(js ''places'', JNum 7)]) = Inr []
   \<and> convertToMapMarkers (hostDrawing (js ''i'')) JNull = Inr []"
  using no_places_no_markers [of "JObj [(js ''saint'', JStr (js ''Basava''))]" "hostDrawing (js ''i'')"]
    no_places_no_markers [of "JObj [(js ''places'', JNull)]" "hostDrawing (js ''i'')"]
    no_places_no_markers [of "JObj [(js ''places'', JStr (js ''Kudalasangama''))]" "hostDrawing (js ''i'')"]
    no_places_no_markers [of "JObj [(js ''places'', JNum 7)]" "hostDrawing (js ''i'')"]
    no_places_no_markers [of JNull "hostDrawing (js ''i'')"]
  by (simp add: optProp_def nullish_def propOf_def typeofObject_def js_def)

section \<open>Two runs of the projector\<close>

lemma toStringJS_host:
  "numberToString h1 = numberToString h2 \<Longrightarrow> toStringJS h1 v = toStringJS h2 v"
proof (induction h1 v rule: toStringJS.induct)
  case (6 h xs)
  have eq: "map (\<lambda>x. if x = JUndefined \<or> x = JNull then Inr [] else toStringJS h x) xs =
        map (\<lambda>x. if x = JUndefined \<or> x = JNull then Inr [] else toStringJS h2 x) xs"
    using 6 by (intro map_cong) auto
  show ?case by (simp only: toStringJS.simps eq)
qed simp_all

lemma eraseId_newMarker:
  "numberToString h1 = numberToString h2 \<Longrightarrow>
   map_sum id eraseId (newMarker h1 doc p t n) = map_sum id eraseId (newMarker h2 doc p t n)"
  by (simp add: eraseId_def newMarker_def toStringJS_host [of h1 h2] split: sum.splits)

lemma createMarker_hosts:
  assumes "numberToString h1 = numberToString h2" and "sameButIds s1 s2"
  shows "rel_sum (=) sameButIds (createMarker h1 doc p t s1) (createMarker h2 doc p t s2)"
proof -
  have "snd s1 = snd s2" using assms(2) by (simp add: sameButIds_def)
  with eraseId_newMarker [OF assms(1), of doc p t "snd s1"] assms(2) show ?thesis
    by (cases "newMarker h1 doc p t (snd s1)"; cases "newMarker h2 doc p t (snd s2)")
      (auto simp: createMarker_def sameButIds_def Let_def split: sum.splits)
qed

lemma forEachE_rel:
  assumes "\<And>x s1 s2. R s1 s2 \<Longrightarrow> rel_sum (=) R (f x s1) (g x s2)" and "R s1 s2"
  shows "rel_sum (=) R (forEachE f xs s1) (forEachE g xs s2)"
  using assms(2)
proof (induction xs arbitrary: s1 s2)
  case Nil
  then show ?case by simp
next
  case (Cons x xs)
  from assms(1) [OF Cons.prems, of x] show ?case
    using Cons.IH by (cases "f x s1"; cases "g x s2") auto
qed

lemma placeEntry_hosts:
  assumes "numberToString h1 = numberToString h2" and "sameButIds s1 s2"
  shows "rel_sum (=) sameButIds (placeEntry h1 doc entry s1) (placeEntry h2 doc entry s2)"
proof -
  obtain t e where entry: "entry = (t, e)" by (cases entry)
  have one: "rel_sum (=) sameButIds (createMarker h1 doc e t s1) (createMarker h2 doc e t s2)"
    using assms by (rule createMarker_hosts)
  show ?thesis
  proof (cases e)
    case (JArr elems)
    have "rel_sum (=) sameButIds
            (forEachE (\<lambda>place. createMarker h1 doc place t) elems s1)
            (forEachE (\<lambda>place. createMarker h2 doc place t) elems s2)"
      using assms(2) by (intro forEachE_rel createMarker_hosts assms(1))
    then show ?thesis using JArr assms(2) by (simp add: entry placeEntry_def)
  qed (use one assms(2) in \<open>simp_all add: entry placeEntry_def\<close>)
qed

text \<open>
  C9, as the code has it. The id of a marker ends in a random suffix, so two runs agree
  on everything but the ids: on whether they raise, on the number and order of the
  markers and on every other field.
\<close>

theorem markers_equal_up_to_random_suffix:
  assumes "numberToString h1 = numberToString h2"
  shows "map_sum id (map eraseId) (convertToMapMarkers h1 doc)
         = map_sum id (map eraseId) (convertToMapMarkers h2 doc)"
proof -
  have start: "sameButIds ([], 0) ([], 0)" by (simp add: sameButIds_def)
  have loop: "rel_sum (=) sameButIds
                (forEachE (placeEntry h1 doc) entries ([], 0))
                (forEachE (placeEntry h2 doc) entries ([], 0))" for entries
    using start by (intro forEachE_rel placeEntry_hosts assms)
  show ?thesis
  proof (cases "objectEntries (optProp doc (js ''places''))")
    case (Inl e)
    then show ?thesis by (simp add: convertToMapMarkers_def Let_def)
  next
    case (Inr entries)
    from loop [of entries] show ?thesis
      using Inr
      by (cases "forEachE (placeEntry h1 doc) entries ([], 0)";
          cases "forEachE (placeEntry h2 doc) entries ([], 0)")
         (simp_all add: convertToMapMarkers_def Let_def sameButIds_def)
  qed
qed

theorem markers_equal_up_to_random_suffix_witness:
  "numberToString (hostDrawing (js ''i'')) = numberToString (hostDrawing (js ''9''))
   \<and> map_sum id (map eraseId) (convertToMapMarkers (hostDrawing (js ''i'')) exampleRecord)
     = map_sum id (map eraseId) (convertToMapMarkers (hostDrawing (js ''9'')) exampleRecord)"
  using markers_equal_up_to_random_suffix [of "hostDrawing (js ''i'')" "hostDrawing (js ''9'')" exampleRecord]
  by (simp add: hostDrawing_def)

text \<open>
  C9 as stated fails: on the example record, a run that draws 0.5 and a run that draws
  0.25 return different marker sequences.
\<close>

theorem marker_ids_differ_counterexample:
  "convertToMapMarkers (hostDrawing (js ''i'')) exampleRecord
   \<noteq> convertToMapMarkers (hostDrawing (js ''9'')) exampleRecord"
  by (simp add: exampleRecord_def hostDrawing_def projector_defs js_def Let_def)

section \<open>The year range and a record without a start year\<close>

lemma toInt_defaults: "toInt (JStr (js ''0'')) = Inr 0" "toInt (JStr (js ''9999'')) = Inr 9999"
  by (simp_all add: toInt_def js_def isDigit_def digitsValue_def)

text \<open>
  C2, as the code has it. A record without \<open>startYear\<close> is compared as 0 with the lower
  bound and as 9999 with the upper bound: a minimum bound returns it exactly when the
  bound is at most 0, a maximum bound exactly when the bound is at least 9999.
\<close>

theorem year_range_missing_start_year:
  assumes "nullish (optProp doc (js ''startYear''))" and "bound \<noteq> []" and "parseInt bound = Some y"
  shows "matchesFilter (buildFilter (onlyStartYearMin bound)) doc = Inr (y \<le> 0)
       \<and> matchesFilter (buildFilter (onlyStartYearMax bound)) doc = Inr (9999 \<le> y)"
  using assms
  by (simp add: matchesFilter_def buildFilter_def onlyStartYearMin_def onlyStartYearMax_def
      supplied_def yearConditions_def matchesTradition_def yearConditionHolds_def startYearOr_def
      toInt_defaults)

theorem year_range_missing_start_year_witness:
  "nullish (optProp (recordOfTradition (js ''Lingayat'')) (js ''startYear''))
   \<and> js ''1000'' \<noteq> [] \<and> parseInt (js ''1000'') = Some 1000
   \<and> matchesFilter (buildFilter (onlyStartYearMin (js ''1000''))) (recordOfTradition (js ''Lingayat'')) = Inr False
   \<and> matchesFilter (buildFilter (onlyStartYearMax (js ''1000''))) (recordOfTradition (js ''Lingayat'')) = Inr False"
proof -
  have a: "nullish (optProp (recordOfTradition (js ''Lingayat'')) (js ''startYear''))"
    by (simp add: recordOfTradition_def optProp_def propOf_def nullish_def js_def)
  have b: "js ''1000'' \<noteq> []" by (simp add: js_def)
  have c: "parseInt (js ''1000'') = Some 1000"
    by (simp add: parseInt_def js_def isSpace_def isDigit_def digitsValue_def)
  from year_range_missing_start_year [OF a b c] a b c show ?thesis by simp
qed

text \<open>
  C2 as stated fails: the maximum bound 1000 excludes a record without a start year
  (9999 is not at most 1000), and the minimum bound 0 does not exclude it.
\<close>

theorem year_max_excludes_missing_counterexample:
  "matchesFilter (buildFilter (onlyStartYearMax (js ''1000''))) (recordOfTradition (js ''Lingayat'')) = Inr False
   \<and> matchesFilter (buildFilter (onlyStartYearMin (js ''0''))) (recordOfTradition (js ''Lingayat'')) = Inr True"
  by (simp add: filter_defs list_ex_first del: list_ex_Cons_iff)

section \<open>The tradition filter\<close>

lemma alternatives_not_Nil: "alternatives s \<noteq> []"
  by (induction s rule: alternatives.induct) (auto split: list.splits)

lemma not_meta_plain: "\<not> isMetaChar c \<Longrightarrow> c \<noteq> 0x5C \<and> c \<noteq> 0x7C"
  by (auto simp: isMetaChar_def)

lemma alternatives_escaped_then_bar:
  "alternatives (escapeRegExp v @ 0x7C # r) = v # alternatives r"
proof (induction v)
  case Nil
  show ?case by (cases r) simp_all
next
  case (Cons c cs)
  show ?case
  proof (cases "isMetaChar c")
    case True
    then show ?thesis using Cons by simp
  next
    case False
    obtain d ds where tail: "escapeRegExp cs @ 0x7C # r = d # ds"
      by (cases "escapeRegExp cs @ 0x7C # r") auto
    have "alternatives (c # d # ds) = (c # cs) # alternatives r"
      using not_meta_plain [OF False] Cons tail by simp
    then show ?thesis using False tail by simp
  qed
qed

lemma alternatives_escaped: "alternatives (escapeRegExp v) = [v]"
proof (induction v)
  case Nil
  show ?case by simp
next
  case (Cons c cs)
  show ?case
  proof (cases "isMetaChar c")
    case True
    then show ?thesis using Cons by simp
  next
    case False
    show ?thesis
    proof (cases "escapeRegExp cs")
      case Nil
      then have "cs = []" by (cases cs) (auto split: if_splits)
      then show ?thesis using False not_meta_plain [OF False] by simp
    next
      case (Cons d ds)
      have "alternatives (c # d # ds) = [c # cs]"
        using not_meta_plain [OF False] Cons.IH Cons by simp
      then show ?thesis using False Cons by simp
    qed
  qed
qed

lemma alternatives_of_alternation:
  "vs \<noteq> [] \<Longrightarrow> alternatives (joinWith [0x7C] (map escapeRegExp vs)) = vs"
proof (induction vs rule: induct_list012)
  case 1
  then show ?case by simp
next
  case (2 v)
  show ?case by (simp add: alternatives_escaped)
next
  case (3 v w ws)
  then have "alternatives (joinWith [0x7C] (map escapeRegExp (w # ws))) = w # ws" by simp
  then show ?case by (simp add: alternatives_escaped_then_bar)
qed

text \<open>
  Every metacharacter of a variant is escaped before the alternation is built, so the
  expression has exactly the search text and its variants as alternatives: the predicate
  is a caseless substring match against each of them.
\<close>

lemma tradition_filter_is_alternation:
  "regexMatches (traditionFilter t) field \<longleftrightarrow>
     list_ex (\<lambda>v. caselessIncludes field v) (trim t # traditionVariants (toLowerCase (trim t)))"
proof -
  have "alternatives (joinWith [0x7C] (map escapeRegExp (trim t # traditionVariants (toLowerCase (trim t)))))
        = trim t # traditionVariants (toLowerCase (trim t))"
    by (rule alternatives_of_alternation) simp
  then show ?thesis
    by (simp add: traditionFilter_def regexMatches_def Let_def js_def)
qed

text \<open>
  C1, on the code. For the input \<open>lingayat\<close> the alternation holds the mis-encoded
  spellings of the file, so a record whose tradition is the name with i-macron and
  s-acute (U+012B, U+015B), or the name with n-overdot and a-macron (U+1E45, U+0101),
  is not matched.
\<close>

theorem lingayat_filter_misses_diacritic_spellings:
  "matchesFilter (buildFilter (onlyTradition (js ''lingayat'')))
     (recordOfTradition ([0x56, 0x12B] @ js ''ra'' @ [0x15B] @ js ''aiva'')) = Inr False
   \<and> matchesFilter (buildFilter (onlyTradition (js ''lingayat'')))
     (recordOfTradition (js ''Li'' @ [0x1E45] @ js ''g'' @ [0x101] @ js ''yat'')) = Inr False"
  by (simp add: filter_defs list_ex_first del: list_ex_Cons_iff)

text \<open>The spellings without diacritics are matched, in any letter case, and \<open>Vaishnava\<close> is not.\<close>

lemma lingayat_filter_plain_spellings:
  "matchesFilter (buildFilter (onlyTradition (js ''lingayat''))) (recordOfTradition (js ''Lingayat'')) = Inr True
   \<and> matchesFilter (buildFilter (onlyTradition (js ''LINGAYAT''))) (recordOfTradition (js ''Virashaiva / Lingayat'')) = Inr True
   \<and> matchesFilter (buildFilter (onlyTradition (js ''lingayat''))) (recordOfTradition (js ''Vaishnava'')) = Inr False"
  by (simp add: filter_defs list_ex_first del: list_ex_Cons_iff)

section \<open>The parsers never raise\<close>

lemma distinct_setAdd: "distinct results \<Longrightarrow> distinct (setAdd x results)"
  by (simp add: setAdd_def)

lemma languagePart_tokenSet:
  assumes "tokenSet results"
  shows "\<exists>results'. languagePart part results = Inr results' \<and> tokenSet results'"
proof (cases "normalizeLanguageName (trim part)")
  case NNull
  then show ?thesis using assms by (simp add: languagePart_def Let_def truthyN_def)
next
  case (NStr s)
  then show ?thesis using assms
    by (auto simp: languagePart_def Let_def truthyN_def lengthN_def tokenSet_def setAdd_def)
next
  case (NBuiltin b)
  then show ?thesis using assms
    by (cases b) (simp_all add: languagePart_def Let_def truthyN_def lengthN_def)
qed

lemma traditionAlternate_distinct:
  "distinct results \<Longrightarrow> distinct (traditionAlternate alt results)"
  by (simp add: traditionAlternate_def Let_def distinct_setAdd)

lemma fold_distinct:
  assumes "\<And>x r. distinct r \<Longrightarrow> distinct (f x r)" and "distinct r"
  shows "distinct (fold f xs r)"
  using assms(2) by (induction xs arbitrary: r) (simp_all add: assms(1))

lemma traditionSubPart_distinct:
  assumes "distinct results"
  shows "distinct (traditionSubPart subPart results)"
proof (cases "parenMatch subPart")
  case None
  then show ?thesis using assms by (simp add: traditionSubPart_def Let_def distinct_setAdd)
next
  case (Some groups)
  obtain group1 group2 where g: "groups = (group1, group2)" by (cases groups)
  have "distinct (fold traditionAlternate alts r)" if "distinct r" for alts r
    using that by (intro fold_distinct traditionAlternate_distinct)
  then show ?thesis using assms Some
    by (simp add: traditionSubPart_def Let_def g distinct_setAdd)
qed

lemma parseTraditionValue_distinct: "distinct (parseTraditionValue v)"
proof (cases v)
  case (JStr val)
  have inner: "distinct (fold traditionSubPart parts r)" if "distinct r" for parts r
    using that by (intro fold_distinct traditionSubPart_distinct)
  have "distinct (fold (\<lambda>part. fold traditionSubPart (regexSplit slashSeparator part)) dashParts [])"
    for dashParts
    by (intro fold_distinct inner) simp_all
  then show ?thesis using JStr by (simp add: parseTraditionValue_def Let_def)
qed (simp_all add: parseTraditionValue_def)

text \<open>
  The part of C8 that holds. For every value, \<open>parseLanguageValue\<close> returns (it never
  reaches the read of \<open>length\<close> on \<open>null\<close>) a list without duplicates whose elements are
  strings of at least two code units, and \<open>parseTraditionValue\<close> returns a list without
  duplicates; for the empty string and for every value that is not a string both return the
  empty list.
\<close>

lemma parsers_always_return:
  "(\<exists>tokens. parseLanguageValue v = Inr tokens \<and> tokenSet tokens)
   \<and> distinct (parseTraditionValue v)
   \<and> parseLanguageValue (JStr []) = Inr [] \<and> parseTraditionValue (JStr []) = []
   \<and> parseLanguageValue JNull = Inr [] \<and> parseTraditionValue JNull = []
   \<and> parseLanguageValue JUndefined = Inr [] \<and> parseTraditionValue JUndefined = []
   \<and> parseLanguageValue (JNum r) = Inr [] \<and> parseTraditionValue (JNum r) = []
   \<and> parseLanguageValue (JBool b) = Inr [] \<and> parseTraditionValue (JBool b) = []
   \<and> parseLanguageValue (JArr xs) = Inr [] \<and> parseTraditionValue (JArr xs) = []
   \<and> parseLanguageValue (JObj kvs) = Inr [] \<and> parseTraditionValue (JObj kvs) = []"
proof -
  have empty: "tokenSet []" by (simp add: tokenSet_def)
  have loop: "\<exists>tokens. forEachE languagePart parts [] = Inr tokens \<and> tokenSet tokens" for parts
    using empty by (intro forEachE_invariant languagePart_tokenSet)
  have "\<exists>tokens. parseLanguageValue v = Inr tokens \<and> tokenSet tokens"
  proof (cases v)
    case (JStr val)
    then show ?thesis using loop empty by (simp add: parseLanguageValue_def Let_def)
  qed (simp_all add: parseLanguageValue_def empty)
  then show ?thesis
    by (simp add: parseTraditionValue_distinct) (simp add: parseLanguageValue_def parseTraditionValue_def)
qed

lemma parse_punjabi_braj:
  "parseLanguageValue (JStr (js ''Punjabi/Braj Bhasha'')) = Inr [NStr (js ''Punjabi''), NStr (js ''Braj Bhasha'')]"
  by (simp add: string_defs language_defs Let_def list_ex_first del: list_ex_Cons_iff)

text \<open>
  C8 fails of the code for the tradition kind. \<open>parseTraditionValue\<close> adds whatever
  \<open>normalizeTraditionName\<close> returns, and for the text \<open>constructor\<close> the lookup
  \<open>normalizations[lowerName]\<close> finds the property that the table inherits from
  \<open>Object.prototype\<close>: the list returned holds the function \<open>Object\<close>, which is no token.
  \<open>parseLanguageValue\<close> meets the same lookup but keeps an element only when its \<open>length\<close>
  is greater than 1, which the \<open>length\<close> 1 of that function is not, and returns the empty list.
\<close>

theorem tradition_parser_returns_inherited_property:
  "parseTraditionValue (JStr (js ''constructor'')) = [NBuiltin ObjectConstructor]
   \<and> normalizeLanguageName (js ''constructor'') = NBuiltin ObjectConstructor
   \<and> parseLanguageValue (JStr (js ''constructor'')) = Inr []"
  by (simp add: string_defs tradition_defs language_defs Let_def list_ex_first del: list_ex_Cons_iff)

section \<open>Tokens the tables do not know\<close>

lemma collapseSpaces_blank:
  "c \<in> set (collapseSpaces s) \<Longrightarrow> isSpace c \<Longrightarrow> c = 0x20"
proof (induction s rule: collapseSpaces.induct)
  case 1
  then show ?case by simp
next
  case (2 d ds)
  then show ?case by (auto split: if_splits)
qed

lemma splitChar_not_Nil: "splitChar sep s \<noteq> []"
  by (induction s) (auto split: list.splits)

lemma joinWith_Cons:
  "ws \<noteq> [] \<Longrightarrow> joinWith sep (w # ws) = w @ sep @ joinWith sep ws"
  by (cases ws) simp_all

lemma joinWith_append_head:
  "joinWith sep ((a @ b) # ws) = a @ joinWith sep (b # ws)"
  by (cases ws) simp_all

lemma capitalize_Nil: "capitalize [] = []"
  by (simp add: capitalize_def toUpperCase_def)

lemma capitalize_Cons: "capitalize (c # w) = upperUnit c @ w"
  by (simp add: capitalize_def toUpperCase_def)

lemma title_case_split:
  assumes "\<forall>c \<in> set s. isSpace c \<longrightarrow> c = 0x20"
  shows "joinWith [0x20] (map capitalize (splitChar 0x20 s)) = titleCaseFrom True s
       \<and> (case splitChar 0x20 s of
             [] \<Rightarrow> True
           | w # ws \<Rightarrow> joinWith [0x20] (w # map capitalize ws) = titleCaseFrom False s)"
  using assms
proof (induction s)
  case Nil
  then show ?case by (simp add: capitalize_Nil)
next
  case (Cons c cs)
  then have IH: "joinWith [0x20] (map capitalize (splitChar 0x20 cs)) = titleCaseFrom True cs"
    "(case splitChar 0x20 cs of
             [] \<Rightarrow> True
           | w # ws \<Rightarrow> joinWith [0x20] (w # map capitalize ws) = titleCaseFrom False cs)"
    by simp_all
  obtain w ws where sp: "splitChar 0x20 cs = w # ws"
    using splitChar_not_Nil [of "0x20" cs] by (cases "splitChar 0x20 cs") auto
  have sp20: "isSpace (0x20 :: jchar)" by (simp add: isSpace_def)
  show ?case
  proof (cases "c = 0x20")
    case True
    have "joinWith [0x20] ([] # map capitalize (w # ws)) = 0x20 # joinWith [0x20] (map capitalize (w # ws))"
      by (simp add: joinWith_Cons)
    then show ?thesis using True IH sp sp20 by (simp add: capitalize_Nil)
  next
    case False
    then have ns: "\<not> isSpace c" using Cons.prems by auto
    have a: "joinWith [0x20] (capitalize (c # w) # map capitalize ws)
             = upperUnit c @ joinWith [0x20] (w # map capitalize ws)"
      by (simp add: capitalize_Cons joinWith_append_head)
    have b: "joinWith [0x20] ((c # w) # map capitalize ws) = [c] @ joinWith [0x20] (w # map capitalize ws)"
      using joinWith_append_head [of "[0x20]" "[c]" w "map capitalize ws"] by simp
    show ?thesis using False ns IH sp a b by simp
  qed
qed

text \<open>
  C5, as the code has it. When the lookup of the lower-cased token finds nothing,
  \<open>normalizeLanguageName\<close> returns the trimmed token without its parentheses and with its
  white space collapsed, in title case, and \<open>normalizeTraditionName\<close> returns the trimmed
  token with its white space collapsed, unchanged.
\<close>

theorem normalize_unknown_token:
  assumes "name \<noteq> []"
  shows "(2 \<le> length (collapseSpaces (removeParenChars (trim name)))
          \<and> lookupProp languageNormalizations (toLowerCase (collapseSpaces (removeParenChars (trim name)))) = None
          \<longrightarrow> normalizeLanguageName name = NStr (titleCase (collapseSpaces (removeParenChars (trim name)))))
       \<and> (2 \<le> length (collapseSpaces (trim name))
          \<and> lookupProp traditionNormalizations (toLowerCase (collapseSpaces (trim name))) = None
          \<longrightarrow> normalizeTraditionName name = NStr (collapseSpaces (trim name)))"
proof -
  let ?cleaned = "collapseSpaces (removeParenChars (trim name))"
  have "\<forall>c \<in> set ?cleaned. isSpace c \<longrightarrow> c = 0x20"
    using collapseSpaces_blank by blast
  from title_case_split [OF this]
  have "joinWith (js '' '') (map capitalize (splitChar 0x20 ?cleaned)) = titleCase ?cleaned"
    by (simp add: titleCase_def js_def)
  then show ?thesis
    using assms by (simp add: normalizeLanguageName_def normalizeTraditionName_def Let_def)
qed

lemma cleaned_eastern_hindi:
  "collapseSpaces (removeParenChars (trim (js '' eastern  (hindi) ''))) = js ''eastern hindi''"
  by (simp add: string_defs)

lemma cleaned_bhakti_yoga:
  "collapseSpaces (trim (js '' bhakti   yoga '')) = js ''bhakti yoga''"
  by (simp add: string_defs)

lemma eastern_hindi_unknown:
  "lookupProp languageNormalizations (toLowerCase (js ''eastern hindi'')) = None"
  by (simp add: string_defs languageNormalizations_def)

lemma bhakti_yoga_unknown:
  "lookupProp traditionNormalizations (toLowerCase (js ''bhakti yoga'')) = None"
  by (simp add: string_defs traditionNormalizations_def)

lemma titleCase_eastern_hindi: "titleCase (js ''eastern hindi'') = js ''Eastern Hindi''"
  by (simp add: titleCase_def string_defs)

theorem normalize_unknown_token_witness:
  "js '' eastern  (hindi) '' \<noteq> [] \<and> js '' bhakti   yoga '' \<noteq> []
   \<and> normalizeLanguageName (js '' eastern  (hindi) '') = NStr (js ''Eastern Hindi'')
   \<and> normalizeTraditionName (js '' bhakti   yoga '') = NStr (js ''bhakti yoga'')"
proof -
  have a: "js '' eastern  (hindi) '' \<noteq> []" and b: "js '' bhakti   yoga '' \<noteq> []"
    by (simp_all add: js_def)
  have l: "2 \<le> length (js ''eastern hindi'')" "2 \<le> length (js ''bhakti yoga'')"
    by (simp_all add: js_def)
  from normalize_unknown_token [OF a] normalize_unknown_token [OF b] show ?thesis
    using a b l
    by (simp add: cleaned_eastern_hindi cleaned_bhakti_yoga eastern_hindi_unknown bhakti_yoga_unknown
        titleCase_eastern_hindi)
qed

text \<open>
  C5 as stated fails for the tradition kind: \<open>bhakti\<close> is not in the table and comes back
  as it is, not in title case.
\<close>

theorem tradition_not_title_cased_counterexample:
  "lookupProp traditionNormalizations (toLowerCase (js ''bhakti'')) = None
   \<and> titleCase (js ''bhakti'') = js ''Bhakti''
   \<and> normalizeTraditionName (js ''bhakti'') = NStr (js ''bhakti'')
   \<and> normalizeTraditionName (js ''bhakti'') \<noteq> NStr (titleCase (js ''bhakti''))"
  by (simp add: string_defs titleCase_def normalizeTraditionName_def traditionNormalizations_def)

text \<open>
  A token that is not in the table but is a property name of \<open>Object.prototype\<close> is
  found by the lookup, and the normalizer returns what it found.
\<close>

lemma normalize_inherited_property:
  "normalizeLanguageName (js ''constructor'') = NBuiltin ObjectConstructor
   \<and> normalizeTraditionName (js ''__proto__'') = NBuiltin ObjectPrototype"
  by (simp add: string_defs normalizeLanguageName_def normalizeTraditionName_def
      languageNormalizations_def traditionNormalizations_def)

section \<open>Parsing a token again\<close>


lemma takeWhile_none: "\<forall>c \<in> set s. \<not> P c \<Longrightarrow> takeWhile P s = []"
  by (cases s) simp_all





















text \<open>
  The branch without a parenthetical strips one suffix word at each pass, and a language
  token can turn into a filler phrase once its white space is collapsed.
\<close>

lemma reparse_strips_second_suffix:
  "parseTraditionValue (JStr (js ''Bhakti movement tradition'')) = [NStr (js ''Bhakti movement'')]"
  by (simp add: string_defs tradition_defs Let_def list_ex_first del: list_ex_Cons_iff)

lemma reparse_language_filler:
  "parseLanguageValue (JStr (js ''other  local'')) = Inr [NStr (js ''Other Local'')]
   \<and> parseLanguageValue (JStr (js ''Other Local'')) = Inr []"
  by (simp add: string_defs language_defs Let_def list_ex_first del: list_ex_Cons_iff)

text \<open>The canonical spellings of two words are fixed points as well.\<close>

lemma two_word_canonical_tokens:
  "parseLanguageValue (JStr (js ''Braj Bhasha'')) = Inr [NStr (js ''Braj Bhasha'')]
   \<and> parseLanguageValue (JStr (js ''Sant Bhasha'')) = Inr [NStr (js ''Sant Bhasha'')]"
  by (simp add: string_defs language_defs Let_def list_ex_first del: list_ex_Cons_iff)

end
